theory Spec2Isabelle
  imports Complex_Main
begin

section \<open>JavaScript numbers\<close>

text \<open>
  The dashboard script computes with JavaScript numbers, the values of IEEE 754 binary64.
  A number is modelled as a finite value given by its exact rational value, the negative
  zero, the two infinities or NaN; \<open>Fin 0\<close> is the positive zero. The operations round
  their exact result to binary64, so that they return what the script computes on binary64
  arguments.
\<close>

datatype jsnum = Fin rat | NegZero | PosInf | NegInf | NaN

fun signbit :: "jsnum \<Rightarrow> bool" where
  "signbit (Fin r) = (r < 0)"
| "signbit NegZero = True"
| "signbit PosInf = False"
| "signbit NegInf = True"
| "signbit NaN = False"

fun is_zero :: "jsnum \<Rightarrow> bool" where
  "is_zero (Fin r) = (r = 0)"
| "is_zero NegZero = True"
| "is_zero _ = False"

fun is_inf :: "jsnum \<Rightarrow> bool" where
  "is_inf PosInf = True"
| "is_inf NegInf = True"
| "is_inf _ = False"

fun is_finite :: "jsnum \<Rightarrow> bool" where
  "is_finite (Fin r) = True"
| "is_finite NegZero = True"
| "is_finite _ = False"

fun fin_val :: "jsnum \<Rightarrow> rat" where
  "fin_val (Fin r) = r"
| "fin_val _ = 0"

definition zero_of :: "bool \<Rightarrow> jsnum" where
  "zero_of neg = (if neg then NegZero else Fin 0)"

definition inf_of :: "bool \<Rightarrow> jsnum" where
  "inf_of neg = (if neg then NegInf else PosInf)"

subsection \<open>Rounding to binary64\<close>

text \<open>
  Every arithmetic operation of the language returns the binary64 value nearest to the
  exact result, a tie going to the value with an even significand; a magnitude that
  rounds to \<open>2\<^sup>1\<^sup>0\<^sup>2\<^sup>4\<close> or more becomes an infinity, and one that rounds to nothing becomes a
  zero with the sign of the exact result. The binary64 values near a magnitude \<open>a\<close> with
  \<open>2\<^sup>e \<le> a < 2\<^sup>e\<^sup>+\<^sup>1\<close> are the multiples of \<open>2\<^sup>e\<^sup>-\<^sup>5\<^sup>2\<close>, and the multiples of \<open>2\<^sup>-\<^sup>1\<^sup>0\<^sup>7\<^sup>4\<close> below
  \<open>2\<^sup>-\<^sup>1\<^sup>0\<^sup>2\<^sup>2\<close>.
\<close>

function bit_length :: "nat \<Rightarrow> nat" where
  "bit_length n = (if n = 0 then 0 else Suc (bit_length (n div 2)))"
  by pat_completeness auto
termination
  by (relation "measure id") auto

declare bit_length.simps [simp del]

text \<open>The integer \<open>e\<close> with \<open>2\<^sup>e \<le> a < 2\<^sup>e\<^sup>+\<^sup>1\<close>, for a positive \<open>a\<close>.\<close>

definition floor_log2 :: "rat \<Rightarrow> int" where
  "floor_log2 a =
     (if 1 \<le> a then int (bit_length (nat \<lfloor>a\<rfloor>)) - 1
      else - int (bit_length (nat (\<lceil>1 / a\<rceil> - 1))))"

definition pow2 :: "int \<Rightarrow> rat" where
  "pow2 k = (if 0 \<le> k then 2 ^ nat k else 1 / 2 ^ nat (- k))"

definition round_half_even :: "rat \<Rightarrow> int" where
  "round_half_even r =
     (if r - of_int \<lfloor>r\<rfloor> < 1 / 2 then \<lfloor>r\<rfloor>
      else if 1 / 2 < r - of_int \<lfloor>r\<rfloor> then \<lfloor>r\<rfloor> + 1
      else if even \<lfloor>r\<rfloor> then \<lfloor>r\<rfloor>
      else \<lfloor>r\<rfloor> + 1)"

definition ulp_exp :: "rat \<Rightarrow> int" where
  "ulp_exp a = max (floor_log2 a) (- 1022) - 52"

definition round_mag :: "rat \<Rightarrow> rat" where
  "round_mag a = of_int (round_half_even (a / pow2 (ulp_exp a))) * pow2 (ulp_exp a)"

definition round64 :: "rat \<Rightarrow> jsnum" where
  "round64 x =
     (if x = 0 then Fin 0
      else if 2 ^ 1024 \<le> round_mag \<bar>x\<bar> then inf_of (x < 0)
      else if round_mag \<bar>x\<bar> = 0 then zero_of (x < 0)
      else Fin (if x < 0 then - round_mag \<bar>x\<bar> else round_mag \<bar>x\<bar>))"

subsection \<open>Arithmetic\<close>

fun js_neg :: "jsnum \<Rightarrow> jsnum" where
  "js_neg (Fin r) = (if r = 0 then NegZero else Fin (- r))"
| "js_neg NegZero = Fin 0"
| "js_neg PosInf = NegInf"
| "js_neg NegInf = PosInf"
| "js_neg NaN = NaN"

fun js_add :: "jsnum \<Rightarrow> jsnum \<Rightarrow> jsnum" where
  "js_add NaN _ = NaN"
| "js_add _ NaN = NaN"
| "js_add PosInf NegInf = NaN"
| "js_add NegInf PosInf = NaN"
| "js_add PosInf _ = PosInf"
| "js_add _ PosInf = PosInf"
| "js_add NegInf _ = NegInf"
| "js_add _ NegInf = NegInf"
| "js_add NegZero NegZero = NegZero"
| "js_add NegZero (Fin b) = Fin b"
| "js_add (Fin a) NegZero = Fin a"
| "js_add (Fin a) (Fin b) = round64 (a + b)"

definition js_sub :: "jsnum \<Rightarrow> jsnum \<Rightarrow> jsnum" where
  "js_sub a b = js_add a (js_neg b)"

definition js_mul :: "jsnum \<Rightarrow> jsnum \<Rightarrow> jsnum" where
  "js_mul a b =
     (if a = NaN \<or> b = NaN then NaN
      else if (is_inf a \<and> is_zero b) \<or> (is_zero a \<and> is_inf b) then NaN
      else if is_inf a \<or> is_inf b then inf_of (signbit a \<noteq> signbit b)
      else if is_zero a \<or> is_zero b then zero_of (signbit a \<noteq> signbit b)
      else round64 (fin_val a * fin_val b))"

definition js_div :: "jsnum \<Rightarrow> jsnum \<Rightarrow> jsnum" where
  "js_div a b =
     (if a = NaN \<or> b = NaN then NaN
      else if is_inf a \<and> is_inf b then NaN
      else if is_zero a \<and> is_zero b then NaN
      else if is_inf a then inf_of (signbit a \<noteq> signbit b)
      else if is_inf b then zero_of (signbit a \<noteq> signbit b)
      else if is_zero b then inf_of (signbit a \<noteq> signbit b)
      else if is_zero a then zero_of (signbit a \<noteq> signbit b)
      else round64 (fin_val a / fin_val b))"

text \<open>The relational operators \<open><\<close>, \<open>>\<close>, \<open>>=\<close> and the strict equality \<open>===\<close>: every
  comparison with NaN is false and the two zeros are equal.\<close>

fun js_lt :: "jsnum \<Rightarrow> jsnum \<Rightarrow> bool" where
  "js_lt NaN _ = False"
| "js_lt _ NaN = False"
| "js_lt PosInf _ = False"
| "js_lt _ NegInf = False"
| "js_lt _ PosInf = True"
| "js_lt NegInf _ = True"
| "js_lt a b = (fin_val a < fin_val b)"

definition js_gt :: "jsnum \<Rightarrow> jsnum \<Rightarrow> bool" where
  "js_gt a b = js_lt b a"

definition js_ge :: "jsnum \<Rightarrow> jsnum \<Rightarrow> bool" where
  "js_ge a b = (a \<noteq> NaN \<and> b \<noteq> NaN \<and> \<not> js_lt a b)"

definition js_seq :: "jsnum \<Rightarrow> jsnum \<Rightarrow> bool" where
  "js_seq a b = (a \<noteq> NaN \<and> b \<noteq> NaN \<and> \<not> js_lt a b \<and> \<not> js_lt b a)"

section \<open>Percentage change\<close>

text \<open>
  \<^verbatim>\<open>function calculatePercentChange(oldValue, newValue) {
      if (oldValue === 0) { return newValue > 0 ? 100 : 0; }
      return ((newValue - oldValue) / oldValue) * 100;
  }\<close>
\<close>

definition calculatePercentChange :: "jsnum \<Rightarrow> jsnum \<Rightarrow> jsnum" where
  "calculatePercentChange oldValue newValue =
     (if js_seq oldValue (Fin 0) then (if js_gt newValue (Fin 0) then Fin 100 else Fin 0)
      else js_mul (js_div (js_sub newValue oldValue) oldValue) (Fin 100))"


section \<open>Strings and numbers\<close>

text \<open>
  Cell values reach the script as strings. \<open>parseFloat\<close> skips leading white space and
  reads the longest prefix that is a decimal literal: an optional sign, then
  \<open>Infinity\<close> or digits with an optional fraction and an optional exponent. With no such
  prefix the result is NaN. Only the ASCII white space characters are modelled.
\<close>

definition is_digit :: "char \<Rightarrow> bool" where
  "is_digit c = (c \<in> set ''0123456789'')"

definition is_space :: "char \<Rightarrow> bool" where
  "is_space c = (c \<in> {CHR 0x09, CHR 0x0A, CHR 0x0B, CHR 0x0C, CHR 0x0D, CHR '' ''})"

text \<open>The value of a digit is its position in \<open>0123456789\<close>.\<close>

definition digit_val :: "char \<Rightarrow> nat" where
  "digit_val c = length (takeWhile (\<lambda>d. d \<noteq> c) ''0123456789'') mod 10"

fun digits_from :: "nat \<Rightarrow> string \<Rightarrow> nat" where
  "digits_from n [] = n"
| "digits_from n (c # cs) = digits_from (10 * n + digit_val c) cs"

definition digits_val :: "string \<Rightarrow> nat" where
  "digits_val ds = digits_from 0 ds"

text \<open>The value of integer digits \<open>ip\<close>, fraction digits \<open>fp\<close> and a decimal exponent.\<close>

definition decimal_value :: "string \<Rightarrow> string \<Rightarrow> int \<Rightarrow> rat" where
  "decimal_value ip fp ex =
     (let m = of_nat (digits_val ip) + of_nat (digits_val fp) / 10 ^ length fp
      in if ex < 0 then m / 10 ^ nat (- ex) else m * 10 ^ nat ex)"

text \<open>The exponent part after the mantissa: \<open>e\<close> or \<open>E\<close>, an optional sign and digits. An
  \<open>e\<close> that no digit follows is not part of the literal, and counts as the exponent 0.\<close>

definition exponent_digits :: "string \<Rightarrow> int" where
  "exponent_digits r =
     (case r of
        [] \<Rightarrow> 0
      | d # r' \<Rightarrow>
          if d = CHR ''-'' then - int (digits_val (takeWhile is_digit r'))
          else if d = CHR ''+'' then int (digits_val (takeWhile is_digit r'))
          else int (digits_val (takeWhile is_digit r)))"

definition exponent_part :: "string \<Rightarrow> int" where
  "exponent_part s =
     (case s of
        [] \<Rightarrow> 0
      | c # r \<Rightarrow> if c = CHR ''e'' \<or> c = CHR ''E'' then exponent_digits r else 0)"

text \<open>After the integer digits: the digits of the fraction, and what follows the
  fraction.\<close>

definition fraction_digits :: "string \<Rightarrow> string" where
  "fraction_digits r1 =
     (case r1 of [] \<Rightarrow> [] | c # r \<Rightarrow> if c = CHR ''.'' then takeWhile is_digit r else [])"

definition after_fraction :: "string \<Rightarrow> string" where
  "after_fraction r1 =
     (case r1 of [] \<Rightarrow> [] | c # r \<Rightarrow> if c = CHR ''.'' then dropWhile is_digit r else r1)"

definition parse_decimal :: "string \<Rightarrow> rat option" where
  "parse_decimal s =
     (if takeWhile is_digit s = [] \<and> fraction_digits (dropWhile is_digit s) = [] then None
      else Some (decimal_value (takeWhile is_digit s) (fraction_digits (dropWhile is_digit s))
                   (exponent_part (after_fraction (dropWhile is_digit s)))))"

definition has_minus :: "string \<Rightarrow> bool" where
  "has_minus t = (case t of [] \<Rightarrow> False | c # r \<Rightarrow> c = CHR ''-'')"

definition skip_sign :: "string \<Rightarrow> string" where
  "skip_sign t = (case t of [] \<Rightarrow> [] | c # r \<Rightarrow> if c = CHR ''-'' \<or> c = CHR ''+'' then r else t)"

definition signed_value :: "bool \<Rightarrow> string \<Rightarrow> jsnum" where
  "signed_value neg u =
     (if take 8 u = ''Infinity'' then inf_of neg
      else (case parse_decimal u of
              None \<Rightarrow> NaN
            | Some r \<Rightarrow> if r = 0 then zero_of neg else round64 (if neg then - r else r)))"

definition parseFloat :: "string \<Rightarrow> jsnum" where
  "parseFloat s =
     signed_value (has_minus (dropWhile is_space s)) (skip_sign (dropWhile is_space s))"

text \<open>\<open>parseFloat\<close> of a number converts it to a string first and reads it back: the
  value is kept, except that the negative zero prints as \<open>0\<close>.\<close>

definition parseFloat_num :: "jsnum \<Rightarrow> jsnum" where
  "parseFloat_num x = (if x = NegZero then Fin 0 else x)"

text \<open>\<open>x || 0\<close> on a number: NaN and both zeros are falsy.\<close>

definition or_zero :: "jsnum \<Rightarrow> jsnum" where
  "or_zero x = (if x = NaN \<or> is_zero x then Fin 0 else x)"

definition isNaN :: "jsnum \<Rightarrow> bool" where
  "isNaN x = (x = NaN)"

text \<open>\<open>Math.round\<close>: the nearest integer, a tie towards \<open>+\<infinity>\<close>; a result of zero keeps the
  sign of the argument.\<close>

definition Math_round :: "jsnum \<Rightarrow> jsnum" where
  "Math_round x =
     (case x of
        Fin r \<Rightarrow> (if r < 0 \<and> - (1 / 2) \<le> r then NegZero else Fin (of_int \<lfloor>r + 1 / 2\<rfloor>))
      | _ \<Rightarrow> x)"

subsection \<open>Printing with a fixed number of decimals\<close>

function nat_digits :: "nat \<Rightarrow> string" where
  "nat_digits n =
     (if n < 10 then [''0123456789'' ! n]
      else nat_digits (n div 10) @ [''0123456789'' ! (n mod 10)])"
  by pat_completeness auto
termination
  by (relation "measure id") auto

declare nat_digits.simps [simp del]

text \<open>
  Outcomes of a script function: it returns, it throws, or it leaves the fragment of
  JavaScript modelled here (see the evaluation of formulas below).
\<close>

datatype 'a outcome = Returns 'a | Throws | Unmodelled

text \<open>\<open>x.toFixed(f)\<close> for a magnitude below \<open>10\<^sup>2\<^sup>1\<close>: the integer \<open>n\<close> nearest to
  \<open>x \<times> 10\<^sup>f\<close> (the larger at a tie), printed with at least \<open>f + 1\<close> digits and a point
  before the last \<open>f\<close>.\<close>

definition pad_zeros :: "nat \<Rightarrow> string \<Rightarrow> string" where
  "pad_zeros f m = replicate (Suc f - length m) (CHR ''0'') @ m"

definition insert_point :: "nat \<Rightarrow> string \<Rightarrow> string" where
  "insert_point f m = (if f = 0 then m else take (length m - f) m @ ''.'' @ drop (length m - f) m)"

definition fixed_digits :: "nat \<Rightarrow> rat \<Rightarrow> string" where
  "fixed_digits f x = insert_point f (pad_zeros f (nat_digits (nat \<lfloor>x * 10 ^ f + 1 / 2\<rfloor>)))"

text \<open>
  From \<open>10\<^sup>2\<^sup>1\<close> on \<open>toFixed\<close> returns the text of the number itself: the shortest digits
  \<open>s\<close> such that \<open>s \<times> 10\<^sup>n\<^sup>-\<^sup>k\<close> rounds to the number, \<open>k\<close> being the number of digits of \<open>s\<close>
  and \<open>n\<close> that of the integer part, in exponent notation. For a given \<open>k\<close> the
  candidates are the two \<open>k\<close>-digit integers around \<open>x / 10\<^sup>n\<^sup>-\<^sup>k\<close>; if both round to the
  number the nearer one is taken, and the even one at a tie.
\<close>

definition round_trips :: "rat \<Rightarrow> rat \<Rightarrow> bool" where
  "round_trips x y = (round64 y = Fin x)"

definition pick_digits :: "rat \<Rightarrow> rat \<Rightarrow> nat \<Rightarrow> nat option" where
  "pick_digits x p lo =
     (if round_trips x (of_nat lo * p) \<and> round_trips x (of_nat (Suc lo) * p) then
        (if x - of_nat lo * p < of_nat (Suc lo) * p - x then Some lo
         else if of_nat (Suc lo) * p - x < x - of_nat lo * p then Some (Suc lo)
         else if even lo then Some lo
         else Some (Suc lo))
      else if round_trips x (of_nat lo * p) then Some lo
      else if round_trips x (of_nat (Suc lo) * p) then Some (Suc lo)
      else None)"

text \<open>The search for the least \<open>k\<close>, from \<open>k\<close> on and for at most \<open>fuel\<close> values of \<open>k\<close>;
  seventeen digits identify every binary64 value.\<close>

fun shortest_from :: "nat \<Rightarrow> nat \<Rightarrow> nat \<Rightarrow> rat \<Rightarrow> nat \<times> nat" where
  "shortest_from 0 k n x = (nat \<lfloor>x / 10 ^ (n - k)\<rfloor>, k)"
| "shortest_from (Suc fuel) k n x =
     (case pick_digits x (10 ^ (n - k)) (nat \<lfloor>x / 10 ^ (n - k)\<rfloor>) of
        Some s \<Rightarrow> (s, k)
      | None \<Rightarrow> shortest_from fuel (Suc k) n x)"

definition strip_zeros :: "string \<Rightarrow> string" where
  "strip_zeros ds = rev (dropWhile (\<lambda>c. c = CHR ''0'') (rev ds))"

definition mantissa_text :: "string \<Rightarrow> string" where
  "mantissa_text ds = (case ds of [] \<Rightarrow> [] | d # r \<Rightarrow> if r = [] then [d] else d # CHR ''.'' # r)"

definition sci_text :: "nat \<Rightarrow> nat \<times> nat \<Rightarrow> string" where
  "sci_text n sk =
     mantissa_text (strip_zeros (nat_digits (fst sk))) @ ''e+'' @
     nat_digits (n - snd sk + length (nat_digits (fst sk)) - 1)"

definition big_number_text :: "rat \<Rightarrow> string" where
  "big_number_text x =
     sci_text (length (nat_digits (nat \<lfloor>x\<rfloor>)))
       (shortest_from 17 1 (length (nat_digits (nat \<lfloor>x\<rfloor>))) x)"

text \<open>\<open>toFixed\<close> throws a RangeError for more than 100 digits.\<close>

definition toFixed :: "nat \<Rightarrow> jsnum \<Rightarrow> string outcome" where
  "toFixed f x =
     (if 100 < f then Throws
      else (case x of
              NaN \<Rightarrow> Returns ''NaN''
            | PosInf \<Rightarrow> Returns ''Infinity''
            | NegInf \<Rightarrow> Returns ''-Infinity''
            | NegZero \<Rightarrow> Returns (fixed_digits f 0)
            | Fin r \<Rightarrow>
                if 10 ^ 21 \<le> \<bar>r\<bar> then
                  Returns ((if r < 0 then ''-'' else []) @ big_number_text \<bar>r\<bar>)
                else if r < 0 then Returns (''-'' @ fixed_digits f (- r))
                else Returns (fixed_digits f r)))"

section \<open>Expense records\<close>

text \<open>
  The server answers \<open>GET /api/expenses\<close> with the units of the period and, per unit
  identifier, an object from field names (\<open>sales\<close>, \<open>rental\<close>, ..., and
  \<open>rental_formula\<close>, ...) to cell texts. A missing field is \<open>None\<close>. The unit selector
  of the analysis views is \<open>all\<close> or one unit identifier.
\<close>

type_synonym expense = "string \<rightharpoonup> string"

record unit_info =
  unit_id :: nat
  unit_number :: string
  building :: string

record api_data =
  units :: "unit_info list"
  expenses :: "nat \<rightharpoonup> expense"

datatype selection = AllUnits | OneUnit nat

text \<open>\<open>expenses[unit.id] || {}\<close>\<close>

definition expenses_of :: "(nat \<rightharpoonup> expense) \<Rightarrow> nat \<Rightarrow> expense" where
  "expenses_of ex uid = (case ex uid of None \<Rightarrow> Map.empty | Some e \<Rightarrow> e)"

text \<open>\<open>selectedUnit === 'all' ? units : units.filter(unit => unit.id == selectedUnit)\<close>\<close>

definition filter_units :: "selection \<Rightarrow> unit_info list \<Rightarrow> unit_info list" where
  "filter_units sel us =
     (case sel of AllUnits \<Rightarrow> us | OneUnit k \<Rightarrow> filter (\<lambda>u. unit_id u = k) us)"

text \<open>\<open>parseFloat(v || 0)\<close>, the parse of the analysis views: a missing or empty text is
  the number 0, any other text is parsed as it stands.\<close>

definition parse_or0 :: "string option \<Rightarrow> jsnum" where
  "parse_or0 v = (case v of None \<Rightarrow> Fin 0 | Some s \<Rightarrow> if s = [] then Fin 0 else parseFloat s)"

subsection \<open>Net earn of one unit\<close>

text \<open>
  \<^verbatim>\<open>const getValue = (value) => {
      if (!value) return 0;
      const num = parseFloat(value.toString().replace(/,/g, ''));
      return isNaN(num) ? 0 : num;
  };\<close>
\<close>

definition strip_commas :: "string \<Rightarrow> string" where
  "strip_commas s = filter (\<lambda>c. c \<noteq> CHR '','') s"

definition nan_to_zero :: "jsnum \<Rightarrow> jsnum" where
  "nan_to_zero num = (if isNaN num then Fin 0 else num)"

definition getValue :: "string option \<Rightarrow> jsnum" where
  "getValue v =
     (case v of
        None \<Rightarrow> Fin 0
      | Some s \<Rightarrow> if s = [] then Fin 0 else nan_to_zero (parseFloat (strip_commas s)))"

definition net_earn_value :: "expense \<Rightarrow> jsnum" where
  "net_earn_value expense =
     (let sales = getValue (expense ''sales'');
          rental = getValue (expense ''rental'');
          electricity = getValue (expense ''electricity'');
          water = getValue (expense ''water'');
          sewage = getValue (expense ''sewage'');
          internet = getValue (expense ''internet'');
          cleaner = getValue (expense ''cleaner'');
          laundry = getValue (expense ''laundry'');
          supplies = getValue (expense ''supplies'');
          repair = getValue (expense ''repair'');
          replace = getValue (expense ''replace'');
          other = getValue (expense ''other'')
      in js_sub (js_sub (js_sub (js_sub (js_sub (js_sub (js_sub (js_sub (js_sub (js_sub
           (js_sub sales rental) electricity) water) sewage) internet) cleaner) laundry)
           supplies) repair) replace) other)"

definition calculateNetEarn :: "expense \<Rightarrow> string outcome" where
  "calculateNetEarn expense = toFixed 2 (net_earn_value expense)"

subsection \<open>Sorting\<close>

text \<open>
  \<open>Array.prototype.sort\<close> is stable and treats a comparator result of NaN as 0. For a
  comparator that orders its arguments consistently the result is that of every stable
  sort; it is computed here by insertion: an element moves behind the elements it
  compares greater than.
\<close>

fun insert_by :: "('a \<Rightarrow> 'a \<Rightarrow> jsnum) \<Rightarrow> 'a \<Rightarrow> 'a list \<Rightarrow> 'a list" where
  "insert_by cmp x [] = [x]"
| "insert_by cmp x (y # ys) =
     (if js_gt (cmp x y) (Fin 0) then y # insert_by cmp x ys else x # y # ys)"

definition sort_by :: "('a \<Rightarrow> 'a \<Rightarrow> jsnum) \<Rightarrow> 'a list \<Rightarrow> 'a list" where
  "sort_by cmp xs = foldr (insert_by cmp) xs []"

subsection \<open>Category breakdown\<close>

record category =
  name :: string
  amount :: jsnum
  percentage :: jsnum

text \<open>The top expense is the first category of the sorted list or, if there is none, an
  object that has a name and a percentage only.\<close>

datatype top_expense = TopCategory category | Sentinel string jsnum

record expense_data =
  total :: jsnum
  categories :: "category list"
  topExpense :: top_expense
  avgPerUnit :: jsnum
  unitCount :: nat

text \<open>The expense fields and the category each one is added to, in the order of the
  eleven statements of the loop body.\<close>

definition category_fields :: "(string \<times> string) list" where
  "category_fields =
     [(''rental'', ''Rental''), (''electricity'', ''Electricity''), (''water'', ''Water''),
      (''sewage'', ''Sewage''), (''internet'', ''Internet''), (''cleaner'', ''Cleaner''),
      (''laundry'', ''Laundry''), (''supplies'', ''Supplies''), (''repair'', ''Repair''),
      (''replace'', ''Replace''), (''other'', ''Other'')]"

definition initial_categories :: "(string \<times> jsnum) list" where
  "initial_categories = map (\<lambda>fc. (snd fc, Fin 0)) category_fields"

text \<open>\<open>categories.find(c => c.name === n).amount += v\<close>\<close>

fun add_to :: "string \<Rightarrow> jsnum \<Rightarrow> (string \<times> jsnum) list \<Rightarrow> (string \<times> jsnum) list" where
  "add_to n v [] = []"
| "add_to n v (c # cs) = (if fst c = n then (fst c, js_add (snd c) v) # cs else c # add_to n v cs)"

text \<open>\<open>if (unitExpenses.f) categories.find(...).amount += parseFloat(unitExpenses.f) || 0\<close>\<close>

definition add_field :: "expense \<Rightarrow> (string \<times> jsnum) list \<Rightarrow> string \<times> string \<Rightarrow> (string \<times> jsnum) list" where
  "add_field ue cats fc =
     (case ue (fst fc) of
        None \<Rightarrow> cats
      | Some s \<Rightarrow> if s = [] then cats else add_to (snd fc) (or_zero (parseFloat s)) cats)"

definition add_unit :: "(nat \<rightharpoonup> expense) \<Rightarrow> (string \<times> jsnum) list \<Rightarrow> unit_info \<Rightarrow> (string \<times> jsnum) list" where
  "add_unit ex cats u = foldl (add_field (expenses_of ex (unit_id u))) cats category_fields"

definition category_sums :: "api_data \<Rightarrow> selection \<Rightarrow> (string \<times> jsnum) list" where
  "category_sums apiData sel =
     foldl (add_unit (expenses apiData)) initial_categories (filter_units sel (units apiData))"

definition with_percentage :: "jsnum \<Rightarrow> string \<times> jsnum \<Rightarrow> category" where
  "with_percentage tot c =
     \<lparr>name = fst c, amount = snd c,
      percentage = Math_round (js_mul (js_div (snd c) tot) (Fin 100))\<rparr>"

definition processExpenseData :: "api_data \<Rightarrow> selection \<Rightarrow> expense_data" where
  "processExpenseData apiData sel =
     (let filteredUnits = filter_units sel (units apiData);
          cats = category_sums apiData sel;
          nonZero = filter (\<lambda>c. js_gt (snd c) (Fin 0)) cats;
          tot = foldl (\<lambda>s c. js_add s (snd c)) (Fin 0) nonZero;
          nonZeroCategories =
            sort_by (\<lambda>a b. js_sub (amount b) (amount a)) (map (with_percentage tot) nonZero);
          n = length filteredUnits
      in \<lparr>total = tot,
          categories = nonZeroCategories,
          topExpense = (case nonZeroCategories of
                          [] \<Rightarrow> Sentinel ''None'' (Fin 0)
                        | c # cs \<Rightarrow> TopCategory c),
          avgPerUnit = (if 0 < n then Math_round (js_div tot (Fin (of_nat n))) else Fin 0),
          unitCount = n\<rparr>)"

subsection \<open>Units with the highest expenses\<close>

record unit_expense =
  ue_id :: nat
  ue_unit_number :: string
  total_expense :: jsnum

definition unit_total :: "(nat \<rightharpoonup> expense) \<Rightarrow> unit_info \<Rightarrow> unit_expense" where
  "unit_total ex u =
     (let unitData = expenses_of ex (unit_id u)
      in \<lparr>ue_id = unit_id u,
          ue_unit_number = unit_number u,
          total_expense =
            js_add (js_add (js_add (js_add (js_add (js_add (js_add (js_add (js_add (js_add
              (parse_or0 (unitData ''rental''))
              (parse_or0 (unitData ''electricity'')))
              (parse_or0 (unitData ''water'')))
              (parse_or0 (unitData ''sewage'')))
              (parse_or0 (unitData ''internet'')))
              (parse_or0 (unitData ''cleaner'')))
              (parse_or0 (unitData ''laundry'')))
              (parse_or0 (unitData ''supplies'')))
              (parse_or0 (unitData ''repair'')))
              (parse_or0 (unitData ''replace'')))
              (parse_or0 (unitData ''other''))\<rparr>)"

definition calculateTopExpenseUnits :: "api_data \<Rightarrow> unit_expense list" where
  "calculateTopExpenseUnits d =
     (let unitExpenses = map (unit_total (expenses d)) (units d);
          nonZeroUnits = filter (\<lambda>u. js_gt (total_expense u) (Fin 0)) unitExpenses
      in take 10 (sort_by (\<lambda>a b. js_sub (total_expense b) (total_expense a)) nonZeroUnits))"

subsection \<open>Profit and loss statement\<close>

text \<open>\<open>acc += parseFloat(unitExpenses.f || 0)\<close> over the filtered units.\<close>

definition sum_field :: "(nat \<rightharpoonup> expense) \<Rightarrow> string \<Rightarrow> unit_info list \<Rightarrow> jsnum" where
  "sum_field ex f us =
     foldl (\<lambda>acc u. js_add acc (parse_or0 (expenses_of ex (unit_id u) f))) (Fin 0) us"

definition expense_field_names :: "string list" where
  "expense_field_names =
     [''rental'', ''electricity'', ''water'', ''sewage'', ''internet'', ''cleaner'',
      ''laundry'', ''supplies'', ''repair'', ''replace'', ''other'']"

text \<open>The current month keeps one total per field and adds the eleven expense totals
  afterwards.\<close>

definition current_expenses_total :: "(nat \<rightharpoonup> expense) \<Rightarrow> unit_info list \<Rightarrow> jsnum" where
  "current_expenses_total ex us =
     js_add (js_add (js_add (js_add (js_add (js_add (js_add (js_add (js_add (js_add
       (sum_field ex ''rental'' us)
       (sum_field ex ''electricity'' us))
       (sum_field ex ''water'' us))
       (sum_field ex ''sewage'' us))
       (sum_field ex ''internet'' us))
       (sum_field ex ''cleaner'' us))
       (sum_field ex ''laundry'' us))
       (sum_field ex ''supplies'' us))
       (sum_field ex ''repair'' us))
       (sum_field ex ''replace'' us))
       (sum_field ex ''other'' us)"

text \<open>The previous month adds every expense field of every unit to one accumulator.\<close>

definition prev_expenses_total :: "(nat \<rightharpoonup> expense) \<Rightarrow> unit_info list \<Rightarrow> jsnum" where
  "prev_expenses_total ex us =
     foldl (\<lambda>acc u. foldl (\<lambda>a f. js_add a (parse_or0 (expenses_of ex (unit_id u) f)))
                           acc expense_field_names)
           (Fin 0) us"

text \<open>\<open>prev === 0 ? 0 : ((cur - prev) / prev) * 100\<close>\<close>

definition pl_change :: "jsnum \<Rightarrow> jsnum \<Rightarrow> jsnum" where
  "pl_change prev cur =
     (if js_seq prev (Fin 0) then Fin 0
      else js_mul (js_div (js_sub cur prev) prev) (Fin 100))"

record pl_statement =
  totalRevenue :: jsnum
  totalExpenses :: jsnum
  netIncome :: jsnum
  prevTotalSales :: jsnum
  prevTotalExpenses :: jsnum
  prevNetIncome :: jsnum
  revenueChange :: jsnum
  expensesChange :: jsnum
  incomeChange :: jsnum

definition updatePnLStatement :: "api_data \<Rightarrow> api_data \<Rightarrow> selection \<Rightarrow> pl_statement" where
  "updatePnLStatement currentData prevData selectedUnit =
     (let filteredUnits = filter_units selectedUnit (units currentData);
          rev = sum_field (expenses currentData) ''sales'' filteredUnits;
          exps = current_expenses_total (expenses currentData) filteredUnits;
          net = js_sub rev exps;
          filteredPrevUnits = filter_units selectedUnit (units prevData);
          prevSales = sum_field (expenses prevData) ''sales'' filteredPrevUnits;
          prevExps = prev_expenses_total (expenses prevData) filteredPrevUnits;
          prevNet = js_sub prevSales prevExps
      in \<lparr>totalRevenue = rev, totalExpenses = exps, netIncome = net,
          prevTotalSales = prevSales, prevTotalExpenses = prevExps, prevNetIncome = prevNet,
          revenueChange = pl_change prevSales rev,
          expensesChange = pl_change prevExps exps,
          incomeChange = pl_change prevNet net\<rparr>)"

subsection \<open>Return on investment\<close>

record roi_row =
  row_unit :: string
  netProfit :: jsnum
  rental :: jsnum
  roi :: jsnum
  performance :: string

text \<open>\<open>let roi = 0; if (rental > 0) { roi = (netProfit / rental) * 100; }\<close>\<close>

definition roi_percent :: "jsnum \<Rightarrow> jsnum \<Rightarrow> jsnum" where
  "roi_percent np r = (if js_gt r (Fin 0) then js_mul (js_div np r) (Fin 100) else Fin 0)"

text \<open>The performance starts as \<open>Poor\<close> and is replaced along the chain of \<open>>=\<close> tests.\<close>

definition performance_of :: "jsnum \<Rightarrow> string" where
  "performance_of x =
     (if js_ge x (Fin 50) then ''Excellent''
      else if js_ge x (Fin 20) then ''Good''
      else if js_ge x (Fin 5) then ''Average''
      else ''Poor'')"

definition roi_of_unit :: "(nat \<rightharpoonup> expense) \<Rightarrow> unit_info \<Rightarrow> roi_row" where
  "roi_of_unit ex u =
     (let unitExpense = expenses_of ex (unit_id u);
          sales = parse_or0 (unitExpense ''sales'');
          rent = parse_or0 (unitExpense ''rental'');
          otherExpenses =
            js_add (js_add (js_add (js_add (js_add (js_add (js_add (js_add (js_add
              (parse_or0 (unitExpense ''electricity''))
              (parse_or0 (unitExpense ''water'')))
              (parse_or0 (unitExpense ''sewage'')))
              (parse_or0 (unitExpense ''internet'')))
              (parse_or0 (unitExpense ''cleaner'')))
              (parse_or0 (unitExpense ''laundry'')))
              (parse_or0 (unitExpense ''supplies'')))
              (parse_or0 (unitExpense ''repair'')))
              (parse_or0 (unitExpense ''replace'')))
              (parse_or0 (unitExpense ''other''));
          np = js_sub (js_sub sales rent) otherExpenses;
          r = roi_percent np rent
      in \<lparr>row_unit = unit_number u, netProfit = np, rental = rent, roi = r,
          performance = performance_of r\<rparr>)"

record roi_analysis =
  rows :: "roi_row list"
  totalNetProfit :: jsnum
  totalRental :: jsnum
  totalRoi :: jsnum
  totalPerformance :: string

definition updateROIAnalysis :: "api_data \<Rightarrow> selection \<Rightarrow> roi_analysis" where
  "updateROIAnalysis d selectedUnit =
     (let filteredUnits = filter_units selectedUnit (units d);
          rs = map (roi_of_unit (expenses d)) filteredUnits;
          tnp = foldl (\<lambda>acc r. js_add acc (netProfit r)) (Fin 0) rs;
          tr = foldl (\<lambda>acc r. js_add acc (rental r)) (Fin 0) rs;
          troi = roi_percent tnp tr
      in \<lparr>rows = rs, totalNetProfit = tnp, totalRental = tr, totalRoi = troi,
          totalPerformance = performance_of troi\<rparr>)"

section \<open>Formulas in cells\<close>

subsection \<open>Cleaning the expression\<close>

text \<open>\<open>s.replace(/c{2,}/g, c)\<close>: every run of two or more \<open>c\<close> becomes one \<open>c\<close>.\<close>

fun collapse_runs :: "char \<Rightarrow> string \<Rightarrow> string" where
  "collapse_runs c (x # y # r) =
     (if x = c \<and> y = c then collapse_runs c (y # r) else x # collapse_runs c (y # r))"
| "collapse_runs c xs = xs"

text \<open>\<open>s.replace(/ab/g, r)\<close>: the occurrences of \<open>ab\<close> are found from left to right, without
  overlap, in the text as it was before the replacement.\<close>

fun replace_pair :: "char \<Rightarrow> char \<Rightarrow> char \<Rightarrow> string \<Rightarrow> string" where
  "replace_pair a b r (x # y # s) =
     (if x = a \<and> y = b then r # replace_pair a b r s else x # replace_pair a b r (y # s))"
| "replace_pair a b r xs = xs"

definition clean_expression :: "string \<Rightarrow> string" where
  "clean_expression expression =
     (let c1 = collapse_runs (CHR ''/'') (collapse_runs (CHR ''*'')
                 (collapse_runs (CHR ''-'') (collapse_runs (CHR ''+'') expression)))
      in replace_pair (CHR ''-'') (CHR ''-'') (CHR ''+'')
           (replace_pair (CHR ''-'') (CHR ''+'') (CHR ''-'')
              (replace_pair (CHR ''+'') (CHR ''-'') (CHR ''-'') c1)))"

text \<open>The characters that \<open>/[^0-9\+\-\*\/\.\(\)\s]/\<close> does not match.\<close>

definition allowed_char :: "char \<Rightarrow> bool" where
  "allowed_char c = (is_digit c \<or> c \<in> set ''+-*/.()'' \<or> is_space c)"

subsection \<open>Evaluating the cleaned text\<close>

text \<open>
  The script evaluates \<open>Function("'use strict'; return (" + text + ")")()\<close>. The model
  covers what the script's alphabet can spell in one line: decimal literals, the unary
  and binary \<open>+ - * /\<close>, parentheses, white space and comments. A syntax error and the
  call of a number throw. Regular expression literals, the operator \<open>**\<close> and line
  terminators are outside the model.

  The lexer reads one character at a time. Its mode says what came before: \<open>Tok b\<close> is
  between tokens, where \<open>b\<close> tells whether the last token ended an operand (then \<open>/\<close>
  divides, otherwise it would open a regular expression).
\<close>

datatype token = TNum rat | TPlus | TMinus | TStar | TSlash | TLParen | TRParen

datatype lex_mode =
    Tok bool
  | IntPart string
  | Dot string
  | FracPart string string
  | CommentOpen bool
  | Comment bool
  | CommentClose bool

definition emit :: "token \<Rightarrow> token list outcome \<Rightarrow> token list outcome" where
  "emit t r = (case r of Returns ts \<Rightarrow> Returns (t # ts) | Throws \<Rightarrow> Throws | Unmodelled \<Rightarrow> Unmodelled)"

text \<open>In strict code an integer part of several digits must not start with \<open>0\<close>.\<close>

definition legacy_octal :: "string \<Rightarrow> bool" where
  "legacy_octal ip = (case ip of [] \<Rightarrow> False | c # r \<Rightarrow> c = CHR ''0'' \<and> r \<noteq> [])"

definition next_is :: "(char \<Rightarrow> bool) \<Rightarrow> string \<Rightarrow> bool" where
  "next_is P s = (case s of [] \<Rightarrow> False | d # r \<Rightarrow> P d)"

fun js_lex :: "lex_mode \<Rightarrow> string \<Rightarrow> token list outcome" where
  "js_lex (Tok b) [] = Returns []"
| "js_lex (Tok b) (c # s) =
     (if c \<in> {CHR 0x09, CHR 0x0B, CHR 0x0C, CHR '' ''} then js_lex (Tok b) s
      else if is_digit c then
        (if next_is is_digit s then js_lex (IntPart [c]) s
         else if next_is (\<lambda>d. d = CHR ''.'') s then js_lex (Dot [c]) s
         else emit (TNum (decimal_value [c] [] 0)) (js_lex (Tok True) s))
      else if c = CHR ''.'' then
        (if next_is is_digit s then js_lex (FracPart [] []) s else Throws)
      else if c = CHR ''+'' then
        (if next_is (\<lambda>d. d = CHR ''+'') s then Throws else emit TPlus (js_lex (Tok False) s))
      else if c = CHR ''-'' then
        (if next_is (\<lambda>d. d = CHR ''-'') s then Throws else emit TMinus (js_lex (Tok False) s))
      else if c = CHR ''*'' then
        (if next_is (\<lambda>d. d = CHR ''*'') s then Unmodelled else emit TStar (js_lex (Tok False) s))
      else if c = CHR ''/'' then
        (if next_is (\<lambda>d. d = CHR ''*'') s then js_lex (CommentOpen b) s
         else if next_is (\<lambda>d. d = CHR ''/'') s then Returns []
         else if b then emit TSlash (js_lex (Tok False) s)
         else Unmodelled)
      else if c = CHR ''('' then emit TLParen (js_lex (Tok False) s)
      else if c = CHR '')'' then emit TRParen (js_lex (Tok True) s)
      else Unmodelled)"
| "js_lex (IntPart ip) [] = Unmodelled"
| "js_lex (IntPart ip) (c # s) =
     (if next_is is_digit s then js_lex (IntPart (ip @ [c])) s
      else if legacy_octal (ip @ [c]) then Throws
      else if next_is (\<lambda>d. d = CHR ''.'') s then js_lex (Dot (ip @ [c])) s
      else emit (TNum (decimal_value (ip @ [c]) [] 0)) (js_lex (Tok True) s))"
| "js_lex (Dot ip) [] = Unmodelled"
| "js_lex (Dot ip) (c # s) =
     (if next_is is_digit s then js_lex (FracPart ip []) s
      else emit (TNum (decimal_value ip [] 0)) (js_lex (Tok True) s))"
| "js_lex (FracPart ip fp) [] = Unmodelled"
| "js_lex (FracPart ip fp) (c # s) =
     (if next_is is_digit s then js_lex (FracPart ip (fp @ [c])) s
      else emit (TNum (decimal_value ip (fp @ [c]) 0)) (js_lex (Tok True) s))"
| "js_lex (CommentOpen b) [] = Unmodelled"
| "js_lex (CommentOpen b) (c # s) = js_lex (Comment b) s"
| "js_lex (Comment b) [] = Throws"
| "js_lex (Comment b) (c # s) =
     (if c = CHR ''*'' \<and> next_is (\<lambda>d. d = CHR ''/'') s then js_lex (CommentClose b) s
      else js_lex (Comment b) s)"
| "js_lex (CommentClose b) [] = Unmodelled"
| "js_lex (CommentClose b) (c # s) = js_lex (Tok b) s"

text \<open>
  The tokens are evaluated from left to right. A frame holds, for one level of
  parentheses, the sum so far with the pending additive operator, the product so far with
  the pending multiplicative operator, and whether an odd number of unary minus signs
  waits for the next operand. \<open>want_operand\<close> runs where an operand must start,
  \<open>have_operand\<close> after the value \<open>t\<close> of the current term.
\<close>

datatype addop = Add | Sub

datatype mulop = Mul | Div

datatype frame = Frame "(jsnum \<times> addop) option" "(jsnum \<times> mulop) option" bool

definition apply_term :: "(jsnum \<times> mulop) option \<Rightarrow> bool \<Rightarrow> jsnum \<Rightarrow> jsnum" where
  "apply_term p n v =
     (let v' = (if n then js_neg v else v)
      in case p of
           None \<Rightarrow> v'
         | Some (a, Mul) \<Rightarrow> js_mul a v'
         | Some (a, Div) \<Rightarrow> js_div a v')"

definition close_sum :: "(jsnum \<times> addop) option \<Rightarrow> jsnum \<Rightarrow> jsnum" where
  "close_sum s t =
     (case s of
        None \<Rightarrow> t
      | Some (a, Add) \<Rightarrow> js_add a t
      | Some (a, Sub) \<Rightarrow> js_sub a t)"

fun want_operand :: "frame \<Rightarrow> frame list \<Rightarrow> token list \<Rightarrow> jsnum outcome"
  and have_operand :: "jsnum \<Rightarrow> (jsnum \<times> addop) option \<Rightarrow> frame list \<Rightarrow> token list \<Rightarrow> jsnum outcome"
where
  "want_operand f st [] = Throws"
| "want_operand (Frame s p n) st (TNum r # ts) =
     have_operand (apply_term p n (round64 r)) s st ts"
| "want_operand (Frame s p n) st (TPlus # ts) = want_operand (Frame s p n) st ts"
| "want_operand (Frame s p n) st (TMinus # ts) = want_operand (Frame s p (\<not> n)) st ts"
| "want_operand f st (TLParen # ts) = want_operand (Frame None None False) (f # st) ts"
| "want_operand f st (TStar # ts) = Throws"
| "want_operand f st (TSlash # ts) = Unmodelled"
| "want_operand f st (TRParen # ts) = Throws"
| "have_operand t s st [] = (if st = [] then Returns (close_sum s t) else Throws)"
| "have_operand t s st (TPlus # ts) = want_operand (Frame (Some (close_sum s t, Add)) None False) st ts"
| "have_operand t s st (TMinus # ts) = want_operand (Frame (Some (close_sum s t, Sub)) None False) st ts"
| "have_operand t s st (TStar # ts) = want_operand (Frame s (Some (t, Mul)) False) st ts"
| "have_operand t s st (TSlash # ts) = want_operand (Frame s (Some (t, Div)) False) st ts"
| "have_operand t s [] (TRParen # ts) = Throws"
| "have_operand t s (Frame s' p' n' # st) (TRParen # ts) =
     have_operand (apply_term p' n' (close_sum s t)) s' st ts"
| "have_operand t s st (TLParen # ts) = Throws"
| "have_operand t s st (TNum r # ts) = Throws"

definition js_eval :: "string \<Rightarrow> jsnum outcome" where
  "js_eval text =
     (if CHR 0x0A \<in> set text \<or> CHR 0x0D \<in> set text then Unmodelled
      else (case js_lex (Tok False) (''('' @ text @ '')'') of
              Returns ts \<Rightarrow> want_operand (Frame None None False) [] ts
            | Throws \<Rightarrow> Throws
            | Unmodelled \<Rightarrow> Unmodelled))"

text \<open>
  \<^verbatim>\<open>calculateFormula(expression) {
      if (!expression) return '';
      let cleanExpression = expression.replace(/\+{2,}/g, '+').replace(/\-{2,}/g, '-')
                                      .replace(/\*{2,}/g, '*').replace(/\/{2,}/g, '/');
      cleanExpression = cleanExpression.replace(/\+\-/g, '-').replace(/\-\+/g, '-')
                                       .replace(/\-\-/g, '+');
      if (/[^0-9\+\-\*\/\.\(\)\s]/.test(cleanExpression)) { throw new Error(...); }
      try {
          const result = Function(`'use strict'; return (${cleanExpression})`)();
          return parseFloat(result).toFixed(2);
      } catch (e) { console.error(...); throw e; }
  }\<close>
\<close>

definition calculateFormula :: "string \<Rightarrow> string outcome" where
  "calculateFormula expression =
     (if expression = [] then Returns []
      else (let cleanExpression = clean_expression expression
            in if \<not> list_all allowed_char cleanExpression then Throws
               else (case js_eval cleanExpression of
                       Returns result \<Rightarrow> toFixed 2 (parseFloat_num result)
                     | Throws \<Rightarrow> Throws
                     | Unmodelled \<Rightarrow> Unmodelled)))"

subsection \<open>Committing a cell\<close>

text \<open>
  The part of the page that the \<open>blur\<close> handler of one input cell reads and writes: the
  text shown in the input, its \<open>data-formula\<close> attribute, the error class with the
  number of timers that will remove it, the in-memory records \<open>currentExpenses\<close> and
  the text of the net earn cells that exist.
\<close>

record page =
  input_value :: string
  dataset_formula :: "string option"
  calculation_error :: bool
  error_timers :: nat
  currentExpenses :: "nat \<rightharpoonup> expense"
  net_earn_cells :: "nat \<rightharpoonup> string outcome"

text \<open>\<open>String.prototype.trim\<close>\<close>

definition trim :: "string \<Rightarrow> string" where
  "trim s = rev (dropWhile is_space (rev (dropWhile is_space s)))"

text \<open>\<open>updateNetEarn(unitId)\<close> writes the net earn of the unit's record into its cell, if
  the cell exists.\<close>

definition updateNetEarn :: "nat \<Rightarrow> page \<Rightarrow> page" where
  "updateNetEarn unitId st =
     (let netEarn = calculateNetEarn (expenses_of (currentExpenses st) unitId)
      in case net_earn_cells st unitId of
           None \<Rightarrow> st
         | Some old \<Rightarrow> st\<lparr>net_earn_cells := (net_earn_cells st)(unitId \<mapsto> netEarn)\<rparr>)"

text \<open>The \<open>catch\<close> blocks: the error class is added and a timer is set that removes it
  after two seconds.\<close>

definition show_error :: "page \<Rightarrow> page" where
  "show_error st = st\<lparr>calculation_error := True, error_timers := Suc (error_timers st)\<rparr>"

definition timer_fires :: "page \<Rightarrow> page" where
  "timer_fires st = st\<lparr>calculation_error := False, error_timers := error_timers st - 1\<rparr>"

text \<open>
  The \<open>blur\<close> handler of the cell of unit \<open>unitId\<close> and column \<open>column\<close>. A text that
  starts with \<open>=\<close> is a formula: the handler stores the text in \<open>data-formula\<close>,
  evaluates it, and then shows and records the result and the formula. Another text
  with one of \<open>- + * / ( )\<close> is evaluated directly: the handler deletes a non-empty
  \<open>data-formula\<close>,
  evaluates, and then shows and records the result and deletes the recorded formula.
  The statements run in this order, so what precedes the evaluation is done also when
  the evaluation throws.
\<close>

definition blur :: "nat \<Rightarrow> string \<Rightarrow> page \<Rightarrow> page outcome" where
  "blur unitId column st =
     (let v = trim (input_value st)
      in case v of
           [] \<Rightarrow> Returns st
         | c # formulaExpression \<Rightarrow>
             if c = CHR ''='' then
               (let st1 = st\<lparr>dataset_formula := Some v\<rparr>
                in case calculateFormula (strip_commas formulaExpression) of
                     Returns result \<Rightarrow>
                       Returns (updateNetEarn unitId
                         (st1\<lparr>input_value := result,
                              currentExpenses := (currentExpenses st1)
                                (unitId \<mapsto> (expenses_of (currentExpenses st1) unitId)
                                   (column \<mapsto> result, column @ ''_formula'' \<mapsto> v))\<rparr>))
                   | Throws \<Rightarrow> Returns (show_error st1)
                   | Unmodelled \<Rightarrow> Unmodelled)
             else if list_ex (\<lambda>d. d \<in> set ''-+*/()'') v then
               (let st1 = (case dataset_formula st of
                             None \<Rightarrow> st
                           | Some f \<Rightarrow> if f = [] then st else st\<lparr>dataset_formula := None\<rparr>)
                in case calculateFormula (strip_commas v) of
                     Returns result \<Rightarrow>
                       (let e = (expenses_of (currentExpenses st1) unitId)(column \<mapsto> result);
                            e' = (case e (column @ ''_formula'') of
                                    None \<Rightarrow> e
                                  | Some f \<Rightarrow> if f = [] then e else e(column @ ''_formula'' := None))
                        in Returns (updateNetEarn unitId
                             (st1\<lparr>input_value := result,
                                  currentExpenses := (currentExpenses st1)(unitId \<mapsto> e')\<rparr>)))
                   | Throws \<Rightarrow> Returns (show_error st1)
                   | Unmodelled \<Rightarrow> Unmodelled)
             else Returns st)"

text \<open>The shape of a number printed with two decimals: an optional minus sign, at least
  one digit, a point and two digits.\<close>

definition unsigned_two_decimals :: "string \<Rightarrow> bool" where
  "unsigned_two_decimals t =
     (4 \<le> length t \<and> list_all is_digit (take (length t - 3) t) \<and>
      t ! (length t - 3) = CHR ''.'' \<and> list_all is_digit (drop (length t - 2) t))"

definition two_decimals :: "string \<Rightarrow> bool" where
  "two_decimals s =
     (case s of [] \<Rightarrow> False | c # r \<Rightarrow> if c = CHR ''-'' then unsigned_two_decimals r
                                      else unsigned_two_decimals s)"

section \<open>Sample data\<close>

text \<open>Periods and pages on which the functions are evaluated below: a period with one
  unit and its record, a period with two units, the period without data, and the page
  state around one cell.\<close>

definition unit1 :: unit_info where
  "unit1 = \<lparr>unit_id = 1, unit_number = ''A-1'', building = ''A''\<rparr>"

definition unit2 :: unit_info where
  "unit2 = \<lparr>unit_id = 2, unit_number = ''A-2'', building = ''A''\<rparr>"

definition one_unit :: "expense \<Rightarrow> api_data" where
  "one_unit e = \<lparr>units = [unit1], expenses = [1 \<mapsto> e]\<rparr>"

definition two_units :: "expense \<Rightarrow> expense \<Rightarrow> api_data" where
  "two_units e1 e2 = \<lparr>units = [unit1, unit2], expenses = [1 \<mapsto> e1, 2 \<mapsto> e2]\<rparr>"

definition no_data :: api_data where
  "no_data = \<lparr>units = [], expenses = Map.empty\<rparr>"

definition cell_page :: "string \<Rightarrow> string option \<Rightarrow> expense \<Rightarrow> page" where
  "cell_page txt formula e =
     \<lparr>input_value = txt, dataset_formula = formula, calculation_error = False,
      error_timers = 0, currentExpenses = [1 \<mapsto> e], net_earn_cells = [1 \<mapsto> Returns ''0.00'']\<rparr>"

section \<open>Properties\<close>

subsection \<open>Evaluation of numerals\<close>

lemma floor_rat_numeral_div [simp]:
  "\<lfloor>(numeral a / numeral b :: rat)\<rfloor> = numeral a div numeral b"
  using floor_divide_of_int_eq[of "numeral a" "numeral b", where ?'a = rat] by simp

lemma floor_rat_neg_numeral_div [simp]:
  "\<lfloor>(- (numeral a / numeral b) :: rat)\<rfloor> = - numeral a div numeral b"
  using floor_divide_of_int_eq[of "- numeral a" "numeral b", where ?'a = rat] by simp

lemmas round_defs =
  round64_def round_mag_def ulp_exp_def floor_log2_def pow2_def round_half_even_def
  bit_length.simps zero_of_def inf_of_def ceiling_def

lemmas parse_defs =
  parseFloat_def signed_value_def has_minus_def skip_sign_def parse_decimal_def
  fraction_digits_def after_fraction_def is_digit_def is_space_def decimal_value_def
  digits_val_def digit_val_def exponent_part_def exponent_digits_def zero_of_def inf_of_def
  Let_def round_defs

lemmas fixed_defs =
  toFixed_def fixed_digits_def pad_zeros_def insert_point_def nat_digits.simps

lemmas arith_defs =
  js_sub_def js_mul_def js_div_def js_gt_def js_ge_def js_seq_def zero_of_def inf_of_def

subsection \<open>Arithmetic on finite numbers\<close>

lemma js_seq_zero_iff: "js_seq x (Fin 0) \<longleftrightarrow> is_zero x"
  by (cases x) (auto simp: js_seq_def)

lemma js_sub_Fin [simp]: "js_sub (Fin a) (Fin b) = (if b = 0 then Fin a else round64 (a - b))"
  by (simp add: js_sub_def)

lemma round64_small [simp]:
  "round64 0 = Fin 0" "round64 1 = Fin 1" "round64 2 = Fin 2" "round64 3 = Fin 3"
  "round64 5 = Fin 5" "round64 100 = Fin 100"
  by (simp_all add: round_defs)

subsection \<open>Whole numbers are binary64 values\<close>

lemma bit_length_le: "m < 2 ^ k \<Longrightarrow> bit_length m \<le> k"
proof (induction k arbitrary: m)
  case 0
  then show ?case by (simp add: bit_length.simps [of 0])
next
  case (Suc k)
  show ?case
  proof (cases "m = 0")
    case True
    then show ?thesis by (simp add: bit_length.simps [of 0])
  next
    case False
    have "m div 2 < 2 ^ k"
      using Suc.prems by auto
    then have "bit_length (m div 2) \<le> k"
      by (rule Suc.IH)
    then show ?thesis
      using False by (simp add: bit_length.simps [of m])
  qed
qed

lemma bit_length_pos: "0 < m \<Longrightarrow> 0 < bit_length m"
  by (simp add: bit_length.simps [of m])

lemma round_half_even_of_int: "round_half_even (of_int m) = m"
  by (simp add: round_half_even_def)

lemma round_mag_of_nat:
  assumes "0 < m" and "m < 2 ^ 53"
  shows "round_mag (of_nat m) = of_nat m"
proof -
  define j where "j = 53 - bit_length m"
  have b1: "0 < bit_length m" and b2: "bit_length m \<le> 53"
    using assms bit_length_pos bit_length_le by auto
  have fl: "floor_log2 (of_nat m) = int (bit_length m) - 1"
    using assms(1) by (simp add: floor_log2_def)
  have ue: "ulp_exp (of_nat m) = - int j"
    using b1 b2 by (simp add: ulp_exp_def fl j_def)
  have p: "pow2 (- int j) = 1 / 2 ^ j"
    by (simp add: pow2_def)
  have "of_nat m / pow2 (- int j) = (of_int (int (m * 2 ^ j)) :: rat)"
    by (simp add: p)
  then have "round_half_even (of_nat m / pow2 (- int j)) = int (m * 2 ^ j)"
    by (simp only: round_half_even_of_int)
  then show ?thesis
    by (simp add: round_mag_def ue p)
qed

lemma round64_exact_pos:
  assumes "0 < x" and "round_mag x = x" and "x < 2 ^ 1024"
  shows "round64 x = Fin x"
proof -
  have "\<bar>x\<bar> = x"
    using assms(1) by simp
  then show ?thesis
    using assms by (simp add: round64_def)
qed

lemma round64_exact_neg:
  assumes "x < 0" and "round_mag (- x) = - x" and "- x < 2 ^ 1024"
  shows "round64 x = Fin x"
proof -
  have "\<bar>x\<bar> = - x"
    using assms(1) by simp
  then show ?thesis
    using assms by (simp add: round64_def)
qed

lemma of_nat_below_range:
  assumes "m < 2 ^ 53"
  shows "(of_nat m :: rat) < 2 ^ 1024"
proof -
  have "(of_nat m :: rat) < 2 ^ 53"
    using assms by (metis of_nat_less_iff of_nat_numeral of_nat_power)
  moreover have "(2 :: rat) ^ 53 \<le> 2 ^ 1024"
    by (rule power_increasing) simp_all
  ultimately show ?thesis by linarith
qed

lemma round64_of_nat:
  assumes "m < 2 ^ 53"
  shows "round64 (of_nat m) = Fin (of_nat m)"
proof (cases "m = 0")
  case True
  then show ?thesis by (simp add: round64_def)
next
  case False
  then have "0 < (of_nat m :: rat)"
    by simp
  then show ?thesis
    using False assms by (intro round64_exact_pos round_mag_of_nat of_nat_below_range) simp_all
qed

lemma round64_neg_of_nat:
  assumes "0 < m" and "m < 2 ^ 53"
  shows "round64 (- of_nat m) = Fin (- of_nat m)"
proof -
  have "- (of_nat m :: rat) < 0"
    using assms(1) by simp
  moreover have "round_mag (- (- of_nat m)) = - (- (of_nat m :: rat))"
    using round_mag_of_nat [OF assms] by simp
  moreover have "- (- (of_nat m :: rat)) < 2 ^ 1024"
    using of_nat_below_range [OF assms(2)] by simp
  ultimately show ?thesis
    by (rule round64_exact_neg)
qed

lemma round64_of_int:
  assumes "\<bar>n\<bar> < 2 ^ 53"
  shows "round64 (of_int n) = Fin (of_int n)"
proof (cases "0 \<le> n")
  case True
  then have "nat n < 2 ^ 53"
    using assms by (simp add: nat_less_iff)
  then have "round64 (of_nat (nat n)) = Fin (of_nat (nat n))"
    by (rule round64_of_nat)
  then show ?thesis
    using True by simp
next
  case False
  then have "0 < nat (- n)" and "nat (- n) < 2 ^ 53"
    using assms by (simp_all add: nat_less_iff)
  then have "round64 (- of_nat (nat (- n))) = Fin (- of_nat (nat (- n)))"
    by (rule round64_neg_of_nat)
  then show ?thesis
    using False by simp
qed
subsection \<open>Accuracy of rounding\<close>

lemma bit_length_lower: "0 < m \<Longrightarrow> 2 ^ (bit_length m - 1) \<le> m"
proof (induction m rule: less_induct)
  case (less m)
  have bl: "bit_length m = Suc (bit_length (m div 2))"
    using less.prems by (simp add: bit_length.simps [of m])
  show ?case
  proof (cases "m div 2 = 0")
    case True
    then show ?thesis
      using less.prems by (simp add: bl bit_length.simps [of 0])
  next
    case False
    then have pos: "0 < m div 2"
      by simp
    have lt: "m div 2 < m"
      using less.prems by simp
    have ih: "2 ^ (bit_length (m div 2) - 1) \<le> m div 2"
      using less.IH [OF lt pos] .
    obtain k where k: "bit_length (m div 2) = Suc k"
      using bit_length_pos [OF pos] by (auto simp: gr0_conv_Suc)
    have "(2 :: nat) ^ (bit_length m - 1) = 2 * 2 ^ k"
      by (simp add: bl k)
    also have "\<dots> \<le> 2 * (m div 2)"
      using ih by (simp add: k)
    also have "\<dots> \<le> m"
      by simp
    finally show ?thesis .
  qed
qed

lemma bit_length_upper: "m < 2 ^ bit_length m"
proof (induction m rule: less_induct)
  case (less m)
  show ?case
  proof (cases "m = 0")
    case True
    then show ?thesis by simp
  next
    case False
    then have "m div 2 < 2 ^ bit_length (m div 2)"
      by (intro less.IH) simp
    then have "m < 2 * 2 ^ bit_length (m div 2)"
      by linarith
    then show ?thesis
      using False by (simp add: bit_length.simps [of m])
  qed
qed

lemma pow2_powi: "pow2 k = 2 powi k"
  by (simp add: pow2_def power_int_def power_one_over inverse_eq_divide)

lemma pow2_pos: "0 < pow2 k"
  by (simp add: pow2_powi zero_less_power_int)

lemma pow2_add: "pow2 (i + j) = pow2 i * pow2 j"
  by (simp add: pow2_powi power_int_add)

lemma pow2_mono: "i \<le> j \<Longrightarrow> pow2 i \<le> pow2 j"
  by (simp add: pow2_powi power_int_increasing)

lemma pow2_less_imp: "pow2 i < pow2 j \<Longrightarrow> i < j"
  using pow2_mono [of j i] by (cases "i < j") auto

lemma pow2_nat: "pow2 (int n) = 2 ^ n"
  by (simp add: pow2_def)

lemma pow2_neg_nat: "pow2 (- int n) = 1 / 2 ^ n"
  by (simp add: pow2_powi power_int_minus inverse_eq_divide)

lemma floor_log2_bounds:
  assumes "0 < a"
  shows "pow2 (floor_log2 a) \<le> a" and "a < pow2 (floor_log2 a + 1)"
proof -
  have "pow2 (floor_log2 a) \<le> a \<and> a < pow2 (floor_log2 a + 1)"
  proof (cases "1 \<le> a")
    case True
    define n where "n = nat \<lfloor>a\<rfloor>"
    have n1: "0 < n"
      using True by (simp add: n_def)
    have na: "of_nat n \<le> a"
      using True by (simp add: n_def)
    have an: "a < of_nat (Suc n)"
    proof -
      have "a < of_int (\<lfloor>a\<rfloor> + 1)"
        by linarith
      also have "\<lfloor>a\<rfloor> + 1 = int (Suc n)"
        using True by (simp add: n_def)
      finally show ?thesis by simp
    qed
    obtain k where k: "bit_length n = Suc k"
      using bit_length_pos [OF n1] by (auto simp: gr0_conv_Suc)
    have fl: "floor_log2 a = int k"
      using True by (simp add: floor_log2_def k flip: n_def)
    have "(2 :: nat) ^ k \<le> n"
      using bit_length_lower [OF n1] by (simp add: k)
    then have "(of_nat (2 ^ k) :: rat) \<le> of_nat n"
      by (simp only: of_nat_le_iff)
    moreover have "(of_nat (2 ^ k) :: rat) = 2 ^ k"
      by simp
    ultimately have lo: "(2 :: rat) ^ k \<le> a"
      using na by linarith
    have "Suc n \<le> 2 ^ Suc k"
      using bit_length_upper [of n] by (simp add: k)
    then have "(of_nat (Suc n) :: rat) \<le> of_nat (2 ^ Suc k)"
      by (simp only: of_nat_le_iff)
    moreover have "(of_nat (2 ^ Suc k) :: rat) = 2 ^ Suc k"
      by (simp only: of_nat_power of_nat_numeral)
    ultimately have hi: "a < 2 ^ Suc k"
      using an by linarith
    have "pow2 (int k + 1) = 2 ^ Suc k"
      using pow2_nat [of "Suc k"] by (simp add: add.commute)
    then show ?thesis
      using lo hi by (simp add: fl pow2_nat)
  next
    case False
    define b where "b = 1 / a"
    have b1: "1 < b"
      using False assms by (simp add: b_def)
    define n where "n = nat (\<lceil>b\<rceil> - 1)"
    have cb: "2 \<le> \<lceil>b\<rceil>"
      using b1 by linarith
    have n1: "0 < n"
      using cb by (simp add: n_def)
    have nint: "int n = \<lceil>b\<rceil> - 1"
      using cb by (simp add: n_def)
    have "of_int (\<lceil>b\<rceil> - 1) < b"
      by linarith
    then have nb: "of_nat n < b"
      by (simp flip: nint)
    have "b \<le> of_int (int n + 1)"
      by (simp add: nint)
    then have bn: "b \<le> of_nat (Suc n)"
      by simp
    obtain k where k: "bit_length n = Suc k"
      using bit_length_pos [OF n1] by (auto simp: gr0_conv_Suc)
    have fl: "floor_log2 a = - int (Suc k)"
      using False by (simp add: floor_log2_def k flip: n_def b_def)
    have "(2 :: nat) ^ k \<le> n"
      using bit_length_lower [OF n1] by (simp add: k)
    then have "(of_nat (2 ^ k) :: rat) \<le> of_nat n"
      by (simp only: of_nat_le_iff)
    moreover have "(of_nat (2 ^ k) :: rat) = 2 ^ k"
      by simp
    ultimately have "(2 :: rat) ^ k < b"
      using nb by linarith
    then have "a * 2 ^ k < 1"
      using assms by (simp add: b_def field_simps)
    then have hi: "a < 1 / 2 ^ k"
      by (simp add: field_simps)
    have "Suc n \<le> 2 ^ Suc k"
      using bit_length_upper [of n] by (simp add: k)
    then have "(of_nat (Suc n) :: rat) \<le> of_nat (2 ^ Suc k)"
      by (simp only: of_nat_le_iff)
    moreover have "(of_nat (2 ^ Suc k) :: rat) = 2 ^ Suc k"
      by (simp only: of_nat_power of_nat_numeral)
    ultimately have "b \<le> 2 ^ Suc k"
      using bn by linarith
    then have "1 \<le> a * 2 ^ Suc k"
      using assms by (simp add: b_def field_simps)
    then have lo: "1 / 2 ^ Suc k \<le> a"
      by (simp add: field_simps)
    have "- int (Suc k) + 1 = - int k"
      by simp
    then have "pow2 (floor_log2 a + 1) = 1 / 2 ^ k"
      by (simp only: fl pow2_neg_nat)
    moreover have "pow2 (floor_log2 a) = 1 / 2 ^ Suc k"
      by (simp only: fl pow2_neg_nat)
    ultimately show ?thesis
      using lo hi by simp
  qed
  then show "pow2 (floor_log2 a) \<le> a" and "a < pow2 (floor_log2 a + 1)"
    by simp_all
qed

lemma round_half_even_close: "\<bar>of_int (round_half_even r) - r\<bar> \<le> 1 / 2"
proof -
  have "of_int \<lfloor>r\<rfloor> \<le> r" and "r < of_int \<lfloor>r\<rfloor> + 1"
    by linarith+
  then show ?thesis
    by (auto simp: round_half_even_def)
qed

lemma round_mag_close: "\<bar>round_mag a - a\<bar> \<le> pow2 (ulp_exp a) / 2"
proof -
  define p where "p = pow2 (ulp_exp a)"
  have p: "0 < p"
    by (simp add: p_def pow2_pos)
  have "round_mag a - a = (of_int (round_half_even (a / p)) - a / p) * p"
    using p by (simp add: round_mag_def p_def field_simps)
  then have "\<bar>round_mag a - a\<bar> = \<bar>of_int (round_half_even (a / p)) - a / p\<bar> * p"
    using p by (simp add: abs_mult)
  also have "\<dots> \<le> 1 / 2 * p"
    using p round_half_even_close [of "a / p"] by (intro mult_right_mono) simp_all
  finally show ?thesis
    by (simp add: p_def)
qed

lemma ulp_normal:
  assumes "pow2 (- 1022) \<le> a"
  shows "pow2 (ulp_exp a) \<le> a / 2 ^ 52"
proof -
  have a: "0 < a"
    using assms pow2_pos [of "- 1022"] by linarith
  have "pow2 (- 1022) < pow2 (floor_log2 a + 1)"
    using assms floor_log2_bounds(2) [OF a] by linarith
  then have "- 1022 < floor_log2 a + 1"
    by (rule pow2_less_imp)
  then have "ulp_exp a = floor_log2 a + (- 52)"
    by (simp add: ulp_exp_def)
  then have "pow2 (ulp_exp a) = pow2 (floor_log2 a) * pow2 (- 52)"
    by (simp only: pow2_add)
  also have "pow2 (- 52) = 1 / 2 ^ 52"
    using pow2_neg_nat [of 52] by simp
  finally show ?thesis
    using floor_log2_bounds(1) [OF a] by (simp add: field_simps)
qed

lemma round_mag_rel:
  assumes "pow2 (- 1022) \<le> a"
  shows "\<bar>round_mag a - a\<bar> \<le> a / 2 ^ 53"
proof -
  have "\<bar>round_mag a - a\<bar> \<le> pow2 (ulp_exp a) / 2"
    by (rule round_mag_close)
  also have "\<dots> \<le> a / 2 ^ 52 / 2"
    using ulp_normal [OF assms] by simp
  finally show ?thesis
    by simp
qed

text \<open>A result in the normal range is rounded with a relative error of at most
  \<open>2\<^sup>-\<^sup>5\<^sup>3\<close>.\<close>

lemma round64_rel:
  assumes "1 / 2 ^ 1022 \<le> \<bar>x\<bar>" and "\<bar>x\<bar> \<le> 2 ^ 1023"
  shows "\<exists>d. round64 x = Fin (x * (1 + d)) \<and> \<bar>d\<bar> \<le> 1 / 2 ^ 53"
proof -
  define a where "a = \<bar>x\<bar>"
  define m where "m = round_mag a"
  define y where "y = (if x < 0 then - m else m)"
  have a: "0 < a"
  proof -
    have "(0 :: rat) < 1 / 2 ^ 1022"
      by simp
    then show ?thesis
      using assms(1) unfolding a_def by linarith
  qed
  have x: "x \<noteq> 0"
    using a by (auto simp: a_def)
  have "pow2 (- 1022) \<le> a"
    using assms(1) pow2_neg_nat [of 1022] by (simp add: a_def)
  then have close: "\<bar>m - a\<bar> \<le> a / 2 ^ 53"
    unfolding m_def by (rule round_mag_rel)
  have small: "a / 2 ^ 53 < a"
    using a by simp
  have m_pos: "0 < m"
    using close small by linarith
  have "m < 2 * a"
    using close small by linarith
  moreover have "2 * a \<le> 2 * 2 ^ 1023"
    using assms(2) by (simp add: a_def)
  ultimately have m_hi: "\<not> 2 ^ 1024 \<le> m"
    by simp
  have r: "round64 x = Fin y"
    using x m_pos m_hi by (simp add: round64_def y_def flip: a_def m_def)
  define d where "d = (y - x) / x"
  have "\<bar>y - x\<bar> = \<bar>m - a\<bar>"
    by (auto simp: y_def a_def)
  then have "\<bar>d\<bar> = \<bar>m - a\<bar> / a"
    by (simp add: d_def a_def)
  also have "\<dots> \<le> a / 2 ^ 53 / a"
    using close a by (intro divide_right_mono) simp_all
  also have "\<dots> = 1 / 2 ^ 53"
    using a by simp
  finally have d: "\<bar>d\<bar> \<le> 1 / 2 ^ 53" .
  have "x * (1 + d) = y"
    using x by (simp add: d_def field_simps)
  then show ?thesis
    using r d by auto
qed

lemma rel_bounds:
  fixes x d :: rat
  assumes "\<bar>d\<bar> \<le> 1 / 2 ^ 53"
  shows "\<bar>x\<bar> / 2 \<le> \<bar>x * (1 + d)\<bar>" and "\<bar>x * (1 + d)\<bar> \<le> 2 * \<bar>x\<bar>"
proof -
  have "1 / 2 \<le> \<bar>1 + d\<bar>" and "\<bar>1 + d\<bar> \<le> 2"
    using assms by simp_all
  then have "\<bar>x\<bar> * (1 / 2) \<le> \<bar>x\<bar> * \<bar>1 + d\<bar>" and "\<bar>x\<bar> * \<bar>1 + d\<bar> \<le> \<bar>x\<bar> * 2"
    by (intro mult_left_mono; simp)+
  then show "\<bar>x\<bar> / 2 \<le> \<bar>x * (1 + d)\<bar>" and "\<bar>x * (1 + d)\<bar> \<le> 2 * \<bar>x\<bar>"
    by (simp_all add: abs_mult)
qed

lemma rel_product:
  fixes a b c :: rat
  assumes "\<bar>a\<bar> \<le> 1 / 2 ^ 53" and "\<bar>b\<bar> \<le> 1 / 2 ^ 53" and "\<bar>c\<bar> \<le> 1 / 2 ^ 53"
  shows "\<bar>(1 + a) * (1 + b) * (1 + c) - 1\<bar> \<le> 1 / 2 ^ 51"
proof -
  define u :: rat where "u = 1 / 2 ^ 53"
  have u: "0 \<le> u"
    by (simp add: u_def)
  have le: "\<bar>a\<bar> \<le> u" "\<bar>b\<bar> \<le> u" "\<bar>c\<bar> \<le> u"
    using assms by (simp_all add: u_def)
  have ab: "\<bar>a * b\<bar> \<le> u * u"
    using le u by (simp add: abs_mult mult_mono)
  have ac: "\<bar>a * c\<bar> \<le> u * u"
    using le u by (simp add: abs_mult mult_mono)
  have bc: "\<bar>b * c\<bar> \<le> u * u"
    using le u by (simp add: abs_mult mult_mono)
  have "\<bar>a * b\<bar> * \<bar>c\<bar> \<le> (u * u) * u"
    using ab le(3) u by (intro mult_mono) simp_all
  then have abc: "\<bar>a * b * c\<bar> \<le> u * u * u"
    by (simp add: abs_mult)
  have "(1 + a) * (1 + b) * (1 + c) - 1 = a + b + c + a * b + a * c + b * c + a * b * c"
    by (simp add: algebra_simps)
  then have "\<bar>(1 + a) * (1 + b) * (1 + c) - 1\<bar> \<le> 3 * u + 3 * (u * u) + u * u * u"
    using le ab ac bc abc by linarith
  also have "\<dots> \<le> 1 / 2 ^ 51"
    by (simp add: u_def)
  finally show ?thesis .
qed

text \<open>The quotient of two finite numbers as a percentage, as the script computes it.\<close>

lemma percent_of_quotient:
  assumes "1 / 2 ^ 501 \<le> \<bar>n\<bar>" and "\<bar>n\<bar> \<le> 2 ^ 502"
    and "1 / 2 ^ 500 \<le> \<bar>r\<bar>" and "\<bar>r\<bar> \<le> 2 ^ 500"
  shows "\<exists>d e. js_mul (js_div (Fin n) (Fin r)) (Fin 100) = Fin (n / r * 100 * (1 + d) * (1 + e))
           \<and> \<bar>d\<bar> \<le> 1 / 2 ^ 53 \<and> \<bar>e\<bar> \<le> 1 / 2 ^ 53"
proof -
  have n: "n \<noteq> 0" and r: "r \<noteq> 0"
    using assms(1,3) by auto
  have dv: "js_div (Fin n) (Fin r) = round64 (n / r)"
    using n r by (simp add: js_div_def)
  have "1 / 2 ^ 501 / 2 ^ 500 \<le> \<bar>n\<bar> / \<bar>r\<bar>"
    using assms by (intro frac_le) simp_all
  then have lo: "1 / 2 ^ 1001 \<le> \<bar>n / r\<bar>"
    by simp
  have "\<bar>n\<bar> / \<bar>r\<bar> \<le> 2 ^ 502 / (1 / 2 ^ 500)"
    using assms by (intro frac_le) simp_all
  then have hi: "\<bar>n / r\<bar> \<le> 2 ^ 1002"
    by simp
  have "1 / 2 ^ 1022 \<le> \<bar>n / r\<bar>"
    by (rule order_trans [OF _ lo]) simp
  moreover have "\<bar>n / r\<bar> \<le> 2 ^ 1023"
    by (rule order_trans [OF hi]) simp
  ultimately obtain d where d: "round64 (n / r) = Fin (n / r * (1 + d))" "\<bar>d\<bar> \<le> 1 / 2 ^ 53"
    using round64_rel by blast
  define q where "q = n / r * (1 + d)"
  have qb: "\<bar>n / r\<bar> / 2 \<le> \<bar>q\<bar>" "\<bar>q\<bar> \<le> 2 * \<bar>n / r\<bar>"
    unfolding q_def by (rule rel_bounds(1) [OF d(2)], rule rel_bounds(2) [OF d(2)])
  have "0 < 1 + d"
    using d(2) by (auto simp: abs_le_iff)
  then have q: "q \<noteq> 0"
    using n r by (simp add: q_def)
  have ml: "js_mul (Fin q) (Fin 100) = round64 (q * 100)"
    using q by (simp add: js_mul_def)
  have "1 / 2 ^ 1001 / 2 \<le> \<bar>n / r\<bar> / 2"
    using lo by (rule divide_right_mono) simp
  then have "1 / 2 ^ 1001 / 2 \<le> \<bar>q\<bar>"
    using qb(1) by (rule order_trans)
  then have "1 / 2 ^ 1001 / 2 * 100 \<le> \<bar>q\<bar> * 100"
    by (rule mult_right_mono) simp
  then have "1 / 2 ^ 1001 / 2 * 100 \<le> \<bar>q * 100\<bar>"
    by (simp only: abs_mult abs_numeral)
  then have qlo: "1 / 2 ^ 1022 \<le> \<bar>q * 100\<bar>"
    by (rule order_trans [rotated]) simp
  have "2 * \<bar>n / r\<bar> \<le> 2 * 2 ^ 1002"
    using hi by (rule mult_left_mono) simp
  then have "\<bar>q\<bar> \<le> 2 * 2 ^ 1002"
    using qb(2) by (rule order_trans [rotated])
  then have "\<bar>q\<bar> * 100 \<le> 2 * 2 ^ 1002 * 100"
    by (rule mult_right_mono) simp
  then have "\<bar>q * 100\<bar> \<le> 2 * 2 ^ 1002 * 100"
    by (simp only: abs_mult abs_numeral)
  then have "\<bar>q * 100\<bar> \<le> 2 ^ 1023"
    by (rule order_trans) simp
  with qlo obtain e where e: "round64 (q * 100) = Fin (q * 100 * (1 + e))" "\<bar>e\<bar> \<le> 1 / 2 ^ 53"
    using round64_rel by blast
  have "js_div (Fin n) (Fin r) = Fin q"
    by (simp only: dv d(1) q_def)
  then have "js_mul (js_div (Fin n) (Fin r)) (Fin 100) = Fin (q * 100 * (1 + e))"
    by (simp only: ml e(1))
  also have "q * 100 * (1 + e) = n / r * 100 * (1 + d) * (1 + e)"
    by (simp add: q_def)
  finally have "js_mul (js_div (Fin n) (Fin r)) (Fin 100) = Fin (n / r * 100 * (1 + d) * (1 + e))" .
  then show ?thesis
    using d(2) e(2) by blast
qed
subsection \<open>Percentage change\<close>

lemma percent_change_zero:
  "is_zero p \<Longrightarrow>
     calculatePercentChange p c = (if c = PosInf \<or> 0 < fin_val c then Fin 100 else Fin 0)"
  by (cases p; cases c) (simp_all add: calculatePercentChange_def js_seq_def js_gt_def)

lemma percent_change_formula:
  "\<not> is_zero p \<Longrightarrow>
     calculatePercentChange p c = js_mul (js_div (js_sub c p) p) (Fin 100)"
  by (simp add: calculatePercentChange_def js_seq_zero_iff)

lemma percent_change_same:
  assumes "p \<noteq> 0"
  shows "is_zero (calculatePercentChange (Fin p) (Fin p))"
  using assms
  by (auto simp: calculatePercentChange_def js_seq_def round64_def js_div_def js_mul_def
      zero_of_def)

lemma percent_change_close:
  assumes "1 / 2 ^ 500 \<le> \<bar>p\<bar>" and "\<bar>p\<bar> \<le> 2 ^ 500" and "\<bar>c\<bar> \<le> 2 ^ 500"
    and "1 / 2 ^ 500 \<le> \<bar>c - p\<bar>"
  shows "is_finite (calculatePercentChange (Fin p) (Fin c)) \<and>
         \<bar>fin_val (calculatePercentChange (Fin p) (Fin c)) - (c - p) / p * 100\<bar>
           \<le> \<bar>(c - p) / p * 100\<bar> / 2 ^ 51"
proof -
  have p: "p \<noteq> 0"
    using assms(1) by auto
  have sub: "js_sub (Fin c) (Fin p) = round64 (c - p)"
    using p by simp
  have "1 / 2 ^ 1022 \<le> \<bar>c - p\<bar>"
    by (rule order_trans [OF _ assms(4)]) simp
  moreover have hi: "\<bar>c - p\<bar> \<le> 2 ^ 500 + 2 ^ 500"
    using assms(2,3) by linarith
  then have "\<bar>c - p\<bar> \<le> 2 ^ 1023"
    by (rule order_trans) simp
  ultimately obtain a where a: "round64 (c - p) = Fin ((c - p) * (1 + a))" "\<bar>a\<bar> \<le> 1 / 2 ^ 53"
    using round64_rel by blast
  define n where "n = (c - p) * (1 + a)"
  have nb: "\<bar>c - p\<bar> / 2 \<le> \<bar>n\<bar>" "\<bar>n\<bar> \<le> 2 * \<bar>c - p\<bar>"
    unfolding n_def by (rule rel_bounds(1) [OF a(2)], rule rel_bounds(2) [OF a(2)])
  have "1 / 2 ^ 500 / 2 \<le> \<bar>c - p\<bar> / 2"
    using assms(4) by (rule divide_right_mono) simp
  then have "1 / 2 ^ 500 / 2 \<le> \<bar>n\<bar>"
    using nb(1) by (rule order_trans)
  then have n_lo: "1 / 2 ^ 501 \<le> \<bar>n\<bar>"
    by (rule order_trans [rotated]) simp
  have "2 * \<bar>c - p\<bar> \<le> 2 * (2 ^ 500 + 2 ^ 500)"
    using hi by (rule mult_left_mono) simp
  then have "\<bar>n\<bar> \<le> 2 * (2 ^ 500 + 2 ^ 500)"
    using nb(2) by (rule order_trans [rotated])
  then have n_hi: "\<bar>n\<bar> \<le> 2 ^ 502"
    by (rule order_trans) simp
  obtain d e where de:
    "js_mul (js_div (Fin n) (Fin p)) (Fin 100) = Fin (n / p * 100 * (1 + d) * (1 + e))"
    "\<bar>d\<bar> \<le> 1 / 2 ^ 53" "\<bar>e\<bar> \<le> 1 / 2 ^ 53"
    using percent_of_quotient [OF n_lo n_hi assms(1,2)] by blast
  define E where "E = (c - p) / p * 100"
  have "calculatePercentChange (Fin p) (Fin c) = js_mul (js_div (Fin n) (Fin p)) (Fin 100)"
    using p by (simp only: percent_change_formula is_zero.simps sub a(1) n_def simp_thms)
  moreover have "n / p * 100 * (1 + d) * (1 + e) = E * ((1 + a) * (1 + d) * (1 + e))"
    using p by (simp add: n_def E_def field_simps)
  ultimately have res:
    "calculatePercentChange (Fin p) (Fin c) = Fin (E * ((1 + a) * (1 + d) * (1 + e)))"
    by (simp only: de(1))
  have "E * ((1 + a) * (1 + d) * (1 + e)) - E = E * ((1 + a) * (1 + d) * (1 + e) - 1)"
    by (simp add: algebra_simps)
  then have "\<bar>E * ((1 + a) * (1 + d) * (1 + e)) - E\<bar> = \<bar>E\<bar> * \<bar>(1 + a) * (1 + d) * (1 + e) - 1\<bar>"
    by (simp only: abs_mult)
  also have "\<dots> \<le> \<bar>E\<bar> * (1 / 2 ^ 51)"
    using rel_product [OF a(2) de(2,3)] by (intro mult_left_mono) simp_all
  finally show ?thesis
    by (simp add: res E_def)
qed

lemma percent_change_values:
  "calculatePercentChange (Fin 0) (Fin 50) = Fin 100"
  "calculatePercentChange (Fin 0) (Fin 0) = Fin 0"
  "calculatePercentChange (Fin 100) (Fin 50) = Fin (- 50)"
  "calculatePercentChange NegZero (Fin 50) = Fin 100"
  "calculatePercentChange (Fin 0) (Fin (- 5)) = Fin 0"
  "calculatePercentChange (Fin 0) NaN = Fin 0"
  by (simp_all add: calculatePercentChange_def arith_defs round_defs)

lemma percent_change_third:
  "calculatePercentChange (Fin 3) (Fin 4) = Fin (2345624805922133 / 70368744177664)"
  by (simp add: calculatePercentChange_def arith_defs round_defs)

text \<open>
  Claim C8. For every pair of numbers, \<open>calculatePercentChange previous current\<close> is 100
  for a current value greater than 0 and 0 otherwise when the previous value is a zero,
  and \<open>(current - previous) / previous \<times> 100\<close> in the arithmetic of binary64 in every other
  case. Each of the three operations rounds: for finite values of magnitude between
  \<open>2\<^sup>-\<^sup>5\<^sup>0\<^sup>0\<close> and \<open>2\<^sup>5\<^sup>0\<^sup>0\<close> whose difference is no smaller than \<open>2\<^sup>-\<^sup>5\<^sup>0\<^sup>0\<close> the result is finite
  and differs from the exact quotient by at most the fraction \<open>2\<^sup>-\<^sup>5\<^sup>1\<close> of it, and for a
  current value equal to a previous value other than 0 the result is a zero. In
  particular the change from 0 to 50 is 100, from 0 to 0 is 0, and from 100 to 50 is
  \<open>-50\<close>; the change from 3 to 4 is the binary64 value \<open>33.33333333333333\<close>, less than
  the third of 100.
\<close>

theorem calculatePercentChange_spec:
  "(is_zero previous \<longrightarrow>
      calculatePercentChange previous current =
        (if current = PosInf \<or> 0 < fin_val current then Fin 100 else Fin 0))
   \<and> (\<not> is_zero previous \<longrightarrow>
      calculatePercentChange previous current =
        js_mul (js_div (js_sub current previous) previous) (Fin 100))
   \<and> (1 / 2 ^ 500 \<le> \<bar>p\<bar> \<and> \<bar>p\<bar> \<le> 2 ^ 500 \<and> \<bar>c\<bar> \<le> 2 ^ 500 \<and> 1 / 2 ^ 500 \<le> \<bar>c - p\<bar> \<longrightarrow>
      is_finite (calculatePercentChange (Fin p) (Fin c)) \<and>
      \<bar>fin_val (calculatePercentChange (Fin p) (Fin c)) - (c - p) / p * 100\<bar>
        \<le> \<bar>(c - p) / p * 100\<bar> / 2 ^ 51)
   \<and> (p \<noteq> 0 \<longrightarrow> is_zero (calculatePercentChange (Fin p) (Fin p)))
   \<and> calculatePercentChange (Fin 0) (Fin 50) = Fin 100
   \<and> calculatePercentChange (Fin 0) (Fin 0) = Fin 0
   \<and> calculatePercentChange (Fin 100) (Fin 50) = Fin (- 50)
   \<and> calculatePercentChange NegZero (Fin 50) = Fin 100
   \<and> calculatePercentChange (Fin 0) (Fin (- 5)) = Fin 0
   \<and> calculatePercentChange (Fin 0) NaN = Fin 0
   \<and> calculatePercentChange (Fin 3) (Fin 4) = Fin (2345624805922133 / 70368744177664)
   \<and> 2345624805922133 / 70368744177664 < (100 / 3 :: rat)"
  using percent_change_zero [of previous current] percent_change_formula [of previous current]
    percent_change_close [of p c] percent_change_same [of p]
  by (simp only: percent_change_values percent_change_third simp_thms) simp

theorem calculatePercentChange_spec_witness:
  "is_zero (Fin 0) \<and> calculatePercentChange (Fin 0) (Fin 50) = Fin 100
   \<and> \<not> is_zero (Fin 100)
   \<and> calculatePercentChange (Fin 100) (Fin 50) =
       js_mul (js_div (js_sub (Fin 50) (Fin 100)) (Fin 100)) (Fin 100)
   \<and> (1 :: rat) / 2 ^ 500 \<le> \<bar>3\<bar> \<and> \<bar>3 :: rat\<bar> \<le> 2 ^ 500 \<and> \<bar>4 :: rat\<bar> \<le> 2 ^ 500
   \<and> (1 :: rat) / 2 ^ 500 \<le> \<bar>4 - 3\<bar>
   \<and> is_finite (calculatePercentChange (Fin 3) (Fin 4))
   \<and> \<bar>fin_val (calculatePercentChange (Fin 3) (Fin 4)) - (4 - 3) / 3 * 100\<bar>
        \<le> \<bar>(4 - 3) / 3 * 100 :: rat\<bar> / 2 ^ 51
   \<and> (3 :: rat) \<noteq> 0 \<and> is_zero (calculatePercentChange (Fin 3) (Fin 3))"
  using calculatePercentChange_spec [of "Fin 0" "Fin 50" 3 4]
        calculatePercentChange_spec [of "Fin 100" "Fin 50" 3 4]
  by simp
subsection \<open>Evaluation of formulas\<close>

lemmas eval_defs =
  js_eval_def emit_def next_is_def decimal_value_def digits_val_def digit_val_def
  apply_term_def close_sum_def legacy_octal_def round_defs

lemmas formula_defs =
  calculateFormula_def clean_expression_def allowed_char_def is_digit_def is_space_def
  parseFloat_num_def strip_commas_def

lemma formula_minus_minus: "calculateFormula ''5--3'' = Returns ''2.00''"
  by (simp add: formula_defs eval_defs fixed_defs)

lemma formula_plus_minus: "calculateFormula ''5+-3'' = Returns ''2.00''"
  by (simp add: formula_defs eval_defs fixed_defs)

lemma formula_one_by_zero: "calculateFormula ''1/0'' = Returns ''Infinity''"
  by (simp add: formula_defs eval_defs fixed_defs js_div_def inf_of_def)

lemma formula_zero_by_zero: "calculateFormula ''0/0'' = Returns ''NaN''"
  by (simp add: formula_defs eval_defs fixed_defs js_div_def inf_of_def)

lemma formula_letter: "calculateFormula ''1+a'' = Throws"
  by (simp add: formula_defs eval_defs fixed_defs)

text \<open>
  The text \<open>5--3\<close> does not evaluate to \<open>8.00\<close>: the collapse of runs of one operator
  runs before the rewrites of sign pairs and has turned \<open>--\<close> into \<open>-\<close> by then.
\<close>

theorem formula_minus_minus_not_8: "calculateFormula ''5--3'' \<noteq> Returns ''8.00''"
  by (simp add: formula_minus_minus)

text \<open>
  Claim C1, as amended. For the text \<open>5--3\<close> the cleaning collapses the run \<open>--\<close> to
  \<open>-\<close> first, the rewrites of \<open>+-\<close>, \<open>-+\<close> and \<open>--\<close> then find nothing to replace, the
  cleaned text is \<open>5-3\<close> and the formula evaluates to \<open>2.00\<close>. The text \<open>5+-3\<close> is
  cleaned to \<open>5-3\<close> as well and evaluates to \<open>2.00\<close>.
\<close>

theorem formula_minus_minus_is_2:
  "clean_expression ''5--3'' = ''5-3'' \<and> calculateFormula ''5--3'' = Returns ''2.00''
   \<and> clean_expression ''5+-3'' = ''5-3'' \<and> calculateFormula ''5+-3'' = Returns ''2.00''"
  by (simp add: formula_minus_minus formula_plus_minus) (simp add: clean_expression_def)

subsection \<open>Division by zero\<close>

lemma div_zero_not_finite: "is_zero b \<Longrightarrow> \<not> is_finite (js_div a b)"
  by (cases a; cases b) (auto simp: js_div_def inf_of_def zero_of_def)

lemma toFixed_not_finite:
  "\<not> is_finite x \<Longrightarrow>
   toFixed 2 (parseFloat_num x) \<in> {Returns ''Infinity'', Returns ''-Infinity'', Returns ''NaN''}"
  by (cases x) (auto simp: toFixed_def parseFloat_num_def)

lemma blur_one_by_zero:
  "blur 1 ''rental'' (cell_page ''1/0'' None Map.empty) =
     Returns \<lparr>input_value = ''Infinity'', dataset_formula = None, calculation_error = False,
       error_timers = 0, currentExpenses = [1 \<mapsto> [''rental'' \<mapsto> ''Infinity'']],
       net_earn_cells = [1 \<mapsto> Returns ''-Infinity'']\<rparr>"
  apply (simp add: blur_def cell_page_def trim_def is_space_def strip_commas_def
      formula_one_by_zero Let_def expenses_of_def updateNetEarn_def)
  apply (simp add: calculateNetEarn_def net_earn_value_def getValue_def nan_to_zero_def
      strip_commas_def parse_defs isNaN_def Let_def toFixed_def js_sub_def)
  done

text \<open>The text \<open>1/0\<close> does not make the evaluation fail.\<close>

theorem formula_one_by_zero_returns: "calculateFormula ''1/0'' \<noteq> Throws"
  by (simp add: formula_one_by_zero)

text \<open>
  Claim C2, as amended. A division by zero does not fail: the quotient is an infinity or
  NaN, \<open>calculateFormula\<close> returns its name (\<open>Infinity\<close> for \<open>1/0\<close>, \<open>NaN\<close> for \<open>0/0\<close>),
  and the \<open>blur\<close> handler shows that text in the cell and stores it in the record, from
  where it reaches the net earn of the unit.
\<close>

theorem division_by_zero_returns:
  "calculateFormula ''1/0'' = Returns ''Infinity''
   \<and> calculateFormula ''0/0'' = Returns ''NaN''
   \<and> (is_zero b \<longrightarrow> \<not> is_finite (js_div a b))
   \<and> (\<not> is_finite x \<longrightarrow>
        toFixed 2 (parseFloat_num x) \<in> {Returns ''Infinity'', Returns ''-Infinity'', Returns ''NaN''})
   \<and> blur 1 ''rental'' (cell_page ''1/0'' None Map.empty) =
        Returns \<lparr>input_value = ''Infinity'', dataset_formula = None, calculation_error = False,
          error_timers = 0, currentExpenses = [1 \<mapsto> [''rental'' \<mapsto> ''Infinity'']],
          net_earn_cells = [1 \<mapsto> Returns ''-Infinity'']\<rparr>"
  using div_zero_not_finite [of b a] toFixed_not_finite [of x]
  by (simp only: formula_one_by_zero formula_zero_by_zero blur_one_by_zero) simp

theorem division_by_zero_returns_witness:
  "is_zero (Fin 0) \<and> \<not> is_finite (js_div (Fin 1) (Fin 0))
   \<and> toFixed 2 (parseFloat_num (js_div (Fin 1) (Fin 0))) = Returns ''Infinity''"
  using division_by_zero_returns [of "Fin 0" "Fin 1" "js_div (Fin 1) (Fin 0)"]
  by (simp add: js_div_def inf_of_def parseFloat_num_def toFixed_def)

subsection \<open>Profit and loss statement\<close>

text \<open>
  With sales of 50 in the current month and no data for the previous month, the
  statement reports a revenue change of 0, where \<open>calculatePercentChange\<close> gives 100.
\<close>

theorem pl_change_differs:
  "prevTotalSales (updatePnLStatement (one_unit [''sales'' \<mapsto> ''50'']) no_data AllUnits) = Fin 0
   \<and> totalRevenue (updatePnLStatement (one_unit [''sales'' \<mapsto> ''50'']) no_data AllUnits) = Fin 50
   \<and> revenueChange (updatePnLStatement (one_unit [''sales'' \<mapsto> ''50'']) no_data AllUnits) = Fin 0
   \<and> calculatePercentChange (Fin 0) (Fin 50) = Fin 100"
  by (simp add: updatePnLStatement_def Let_def one_unit_def no_data_def unit1_def filter_units_def
      sum_field_def expenses_of_def parse_or0_def parse_defs round_defs pl_change_def js_seq_def
      calculatePercentChange_def js_gt_def)

text \<open>
  Claim C3, as amended. The statement computes each of its three changes (revenue,
  expenses, net income) with its own guard: the change is 0 when the previous total is
  0, whatever the current total, and \<open>(current - previous) / previous \<times> 100\<close> otherwise, where
  it agrees with \<open>calculatePercentChange\<close>.
\<close>

theorem pl_changes:
  "revenueChange (updatePnLStatement c p sel) =
     (if is_zero (prevTotalSales (updatePnLStatement c p sel)) then Fin 0
      else calculatePercentChange (prevTotalSales (updatePnLStatement c p sel))
             (totalRevenue (updatePnLStatement c p sel)))
   \<and> expensesChange (updatePnLStatement c p sel) =
     (if is_zero (prevTotalExpenses (updatePnLStatement c p sel)) then Fin 0
      else calculatePercentChange (prevTotalExpenses (updatePnLStatement c p sel))
             (totalExpenses (updatePnLStatement c p sel)))
   \<and> incomeChange (updatePnLStatement c p sel) =
     (if is_zero (prevNetIncome (updatePnLStatement c p sel)) then Fin 0
      else calculatePercentChange (prevNetIncome (updatePnLStatement c p sel))
             (netIncome (updatePnLStatement c p sel)))"
  by (simp add: updatePnLStatement_def Let_def pl_change_def calculatePercentChange_def
      js_seq_zero_iff)

subsection \<open>A commit that fails\<close>

text \<open>
  Claim C4, at two inputs on which the code departs from it. A cell holds the formula
  \<open>=1+2\<close>. When the text \<open>=1+a\<close> is committed, the evaluation throws, and the handler
  leaves the shown text and the record as they were and raises the error class with its
  timer, but the \<open>data-formula\<close> attribute of the cell already holds \<open>=1+a\<close>. When the
  text \<open>1+a\<close> is committed, the attribute is already deleted, while the record keeps the
  formula \<open>=1+2\<close>.
\<close>

theorem blur_failure_changes_formula:
  "calculateFormula (strip_commas ''1+a'') = Throws
   \<and> blur 1 ''rental''
        (cell_page ''=1+a'' (Some ''=1+2'')
           [''rental'' \<mapsto> ''=1+a'', ''rental_formula'' \<mapsto> ''=1+2''])
     = Returns ((cell_page ''=1+a'' (Some ''=1+a'')
                  [''rental'' \<mapsto> ''=1+a'', ''rental_formula'' \<mapsto> ''=1+2''])
                \<lparr>calculation_error := True, error_timers := 1\<rparr>)
   \<and> blur 1 ''rental''
        (cell_page ''1+a'' (Some ''=1+2'')
           [''rental'' \<mapsto> ''1+a'', ''rental_formula'' \<mapsto> ''=1+2''])
     = Returns ((cell_page ''1+a'' None
                  [''rental'' \<mapsto> ''1+a'', ''rental_formula'' \<mapsto> ''=1+2''])
                \<lparr>calculation_error := True, error_timers := 1\<rparr>)"
  by (simp add: blur_def cell_page_def trim_def is_space_def strip_commas_def formula_letter
      Let_def show_error_def)

subsection \<open>The plain parse and commas\<close>

lemma takeWhile_digit_comma:
  "takeWhile is_digit (u @ CHR '','' # r) = takeWhile is_digit u"
  by (induction u) (simp_all add: is_digit_def)

lemma dropWhile_digit_comma:
  "dropWhile is_digit (u @ CHR '','' # r) = dropWhile is_digit u @ CHR '','' # r"
  by (induction u) (simp_all add: is_digit_def)

lemma dropWhile_space_comma:
  "dropWhile is_space (u @ CHR '','' # r) = dropWhile is_space u @ CHR '','' # r"
  by (induction u) (simp_all add: is_space_def)

lemma exponent_digits_comma: "exponent_digits (x @ CHR '','' # r) = exponent_digits x"
proof (cases x)
  case Nil
  have "takeWhile is_digit (CHR '','' # r) = []"
    by (simp add: is_digit_def)
  then show ?thesis
    using Nil by (simp add: exponent_digits_def digits_val_def)
next
  case (Cons d x')
  have "takeWhile is_digit (d # x' @ CHR '','' # r) = takeWhile is_digit (d # x')"
    using takeWhile_digit_comma [of "d # x'" r] by simp
  then show ?thesis
    using Cons takeWhile_digit_comma [of x' r] by (simp only: exponent_digits_def list.case append_Cons)
qed

lemma exponent_part_comma: "exponent_part (x @ CHR '','' # r) = exponent_part x"
proof (cases x)
  case Nil
  then show ?thesis by (simp add: exponent_part_def)
next
  case (Cons c x')
  then show ?thesis
    using exponent_digits_comma [of x' r] by (simp add: exponent_part_def)
qed

lemma fraction_digits_comma: "fraction_digits (d @ CHR '','' # r) = fraction_digits d"
  by (cases d) (simp_all add: fraction_digits_def takeWhile_digit_comma)

lemma after_fraction_comma:
  "exponent_part (after_fraction (d @ CHR '','' # r)) = exponent_part (after_fraction d)"
proof (cases d)
  case Nil
  then show ?thesis by (simp add: after_fraction_def exponent_part_def)
next
  case (Cons c d')
  then show ?thesis
    using exponent_part_comma [of "c # d'" r] exponent_part_comma [of "dropWhile is_digit d'" r]
    by (simp add: after_fraction_def dropWhile_digit_comma)
qed

lemma parse_decimal_comma: "parse_decimal (u @ CHR '','' # r) = parse_decimal u"
  by (simp add: parse_decimal_def takeWhile_digit_comma dropWhile_digit_comma
      fraction_digits_comma after_fraction_comma)

lemma take8_comma: "(take 8 (u @ CHR '','' # r) = ''Infinity'') = (take 8 u = ''Infinity'')"
proof (cases "8 \<le> length u")
  case True
  then show ?thesis by simp
next
  case False
  have eq: "take 8 (u @ CHR '','' # r) = u @ CHR '','' # take (7 - length u) r"
    using False by (simp add: take_Cons')
  have a: "take 8 (u @ CHR '','' # r) \<noteq> ''Infinity''"
  proof
    assume h: "take 8 (u @ CHR '','' # r) = ''Infinity''"
    have "CHR '','' \<in> set (u @ CHR '','' # take (7 - length u) r)"
      by simp
    then have "CHR '','' \<in> set (take 8 (u @ CHR '','' # r))"
      by (simp only: eq)
    then have "CHR '','' \<in> set ''Infinity''"
      by (simp only: h)
    then show False by simp
  qed
  have b: "take 8 u \<noteq> ''Infinity''"
  proof
    assume "take 8 u = ''Infinity''"
    then have "length (take 8 u) = length ''Infinity''"
      by (rule arg_cong)
    then show False using False by simp
  qed
  from a b show ?thesis by (simp only:)
qed

lemma signed_value_comma: "signed_value neg (u @ CHR '','' # r) = signed_value neg u"
  by (simp only: signed_value_def take8_comma parse_decimal_comma)

lemma has_minus_comma: "has_minus (t @ CHR '','' # r) = has_minus t"
  by (cases t) (simp_all add: has_minus_def)

lemma skip_sign_comma: "skip_sign (t @ CHR '','' # r) = skip_sign t @ CHR '','' # r"
  by (cases t) (simp_all add: skip_sign_def)

lemma parseFloat_comma: "parseFloat (pre @ CHR '','' # rest) = parseFloat pre"
  by (simp add: parseFloat_def dropWhile_space_comma has_minus_comma skip_sign_comma
      signed_value_comma)

lemma parse_1_234: "parseFloat ''1,234'' = Fin 1"
  by (simp add: parse_defs)

lemma parse_1234: "parseFloat ''1234'' = Fin 1234"
  by (simp add: parse_defs)

lemma breakdown_comma:
  "categories (processExpenseData (one_unit [''rental'' \<mapsto> ''1,234'']) AllUnits) =
     [\<lparr>name = ''Rental'', amount = Fin 1, percentage = Fin 100\<rparr>]"
  by (simp add: processExpenseData_def Let_def category_sums_def one_unit_def unit1_def
      filter_units_def add_unit_def add_field_def category_fields_def initial_categories_def
      expenses_of_def parse_1_234 or_zero_def js_gt_def with_percentage_def sort_by_def
      js_div_def js_mul_def Math_round_def)

lemma top_units_comma:
  "calculateTopExpenseUnits (one_unit [''rental'' \<mapsto> ''1,234'']) =
     [\<lparr>ue_id = 1, ue_unit_number = ''A-1'', total_expense = Fin 1\<rparr>]"
  by (simp add: calculateTopExpenseUnits_def Let_def unit_total_def one_unit_def unit1_def
      expenses_of_def parse_or0_def parse_1_234 js_gt_def sort_by_def)

lemma pl_comma:
  "totalExpenses (updatePnLStatement (one_unit [''rental'' \<mapsto> ''1,234'']) no_data AllUnits) = Fin 1"
  by (simp add: updatePnLStatement_def Let_def one_unit_def unit1_def filter_units_def
      current_expenses_total_def sum_field_def expenses_of_def parse_or0_def parse_1_234)

lemma net_earn_comma: "calculateNetEarn [''rental'' \<mapsto> ''1,234''] = Returns ''-1234.00''"
  by (simp add: calculateNetEarn_def net_earn_value_def Let_def getValue_def nan_to_zero_def
      strip_commas_def parse_1234 isNaN_def fixed_defs round_defs)

text \<open>
  Claim C10. The analysis views parse a cell text as it stands, and the plain parse stops
  at the first comma: the text \<open>pre,rest\<close> counts as \<open>pre\<close> alone. For a rental of
  \<open>1,234\<close> the category breakdown, the ranking of units and the total expenses of the
  profit and loss statement count 1, while the net earn of the unit, which strips the
  commas before it parses, counts 1234.
\<close>

theorem comma_values_diverge:
  "parseFloat (pre @ CHR '','' # rest) = parseFloat pre
   \<and> parse_or0 (Some (pre @ CHR '','' # rest)) = parseFloat pre
   \<and> parse_or0 (Some ''1,234'') = Fin 1
   \<and> getValue (Some ''1,234'') = Fin 1234
   \<and> categories (processExpenseData (one_unit [''rental'' \<mapsto> ''1,234'']) AllUnits) =
        [\<lparr>name = ''Rental'', amount = Fin 1, percentage = Fin 100\<rparr>]
   \<and> calculateTopExpenseUnits (one_unit [''rental'' \<mapsto> ''1,234'']) =
        [\<lparr>ue_id = 1, ue_unit_number = ''A-1'', total_expense = Fin 1\<rparr>]
   \<and> totalExpenses (updatePnLStatement (one_unit [''rental'' \<mapsto> ''1,234'']) no_data AllUnits) = Fin 1
   \<and> calculateNetEarn [''rental'' \<mapsto> ''1,234''] = Returns ''-1234.00''"
  by (simp only: breakdown_comma top_units_comma pl_comma net_earn_comma)
     (simp add: parseFloat_comma parse_or0_def getValue_def nan_to_zero_def strip_commas_def
        parse_1_234 parse_1234 isNaN_def)


end
